theory Spec2Isabelle
  imports Main "HOL-Library.Sublist"
begin

section \<open>JavaScript values\<close>

text \<open>
  The options object is checked at run time (\<open>typeof\<close>, \<open>Array.isArray\<close>, truthiness),
  and the tests pass ill-typed fields on purpose, so a field holds any JavaScript value.
  Numbers are integers here (\<open>NaN\<close> is left out); \<open>JObj\<close> stands for any other object.
\<close>

datatype jsval =
    JUndefined
  | JNull
  | JBool bool
  | JNum int
  | JStr string
  | JFun "string \<Rightarrow> string"
  | JArr "jsval list"
  | JObj

text \<open>What \<open>if (v)\<close> and \<open>!v\<close> test.\<close>

fun truthy :: "jsval \<Rightarrow> bool" where
  "truthy JUndefined = False"
| "truthy JNull = False"
| "truthy (JBool b) = b"
| "truthy (JNum k) = (k \<noteq> 0)"
| "truthy (JStr s) = (s \<noteq> [])"
| "truthy (JFun f) = True"
| "truthy (JArr vs) = True"
| "truthy JObj = True"

text \<open>\<open>typeof v === "string"\<close>, \<open>typeof v === "function"\<close>, \<open>Array.isArray(v)\<close>.\<close>

fun is_string :: "jsval \<Rightarrow> bool" where
  "is_string (JStr s) = True"
| "is_string v = False"

fun is_function :: "jsval \<Rightarrow> bool" where
  "is_function (JFun f) = True"
| "is_function v = False"

fun isArray :: "jsval \<Rightarrow> bool" where
  "isArray (JArr vs) = True"
| "isArray v = False"

text \<open>A property that was never set reads as \<open>undefined\<close>.\<close>

definition present :: "jsval \<Rightarrow> bool" where
  "present v = (v \<noteq> JUndefined)"

section \<open>Data\<close>

text \<open>The interface \<open>Options\<close> of \<open>src/types.ts\<close>, each field as the value found at run time.\<close>

record options =
  opt_dest :: jsval
  opt_ext :: jsval
  opt_map :: jsval
  opt_extra :: jsval
  opt_ctime :: jsval

text \<open>
  \<open>fs.Stats\<close>: the two timestamps (a \<open>Date\<close> compares by its milliseconds) and
  \<open>isDirectory()\<close>.
\<close>

record stats =
  mtime :: int
  ctime :: int
  isDirectory :: bool

datatype timestamp = Ctime | Mtime

fun stamp :: "timestamp \<Rightarrow> stats \<Rightarrow> int" where
  "stamp Ctime s = ctime s"
| "stamp Mtime s = mtime s"

text \<open>A vinyl file: \<open>srcFile.relative\<close> and \<open>srcFile.stat\<close> (which may be missing).\<close>

record vinyl =
  relative :: string
  stat :: "stats option"

text \<open>
  The error object a failed \<open>fs.statSync\<close> or \<open>glob.sync\<close> throws: \<open>error.code\<close> and
  \<open>error.path\<close> (either may be missing) and the text \<open>String(error)\<close> gives.
\<close>

record js_error =
  err_code :: "string option"
  err_path :: "string option"
  err_text :: string

text \<open>
  What the module throws or hands to \<open>done\<close>: a \<open>PluginError\<close> with its message, the
  \<open>TypeError\<close> of a property read on \<open>null\<close> or \<open>undefined\<close>, or an error of a
  collaborator passed on as it is.
\<close>

datatype error =
    PluginError string
  | TypeError string
  | JsError js_error

text \<open>
  The collaborators of the module, none of them part of the repository: \<open>fs.statSync\<close> on
  a filesystem snapshot, with one argument (it returns the stats or throws) and with the
  option \<open>{ throwIfNoEntry: false }\<close> (it returns the stats or \<open>undefined\<close>, or
  throws; when it returns \<open>undefined\<close> is the business of Node, not of the module),
  \<open>glob.sync\<close> (which throws on some patterns), \<open>path.extname\<close> and \<open>path.join\<close> (two
  arguments).
\<close>

record platform =
  fs_statSync :: "string \<Rightarrow> js_error + stats"
  fs_statSync_noentry :: "string \<Rightarrow> js_error + stats option"
  glob_sync :: "jsval \<Rightarrow> js_error + string list"
  path_extname :: "string \<Rightarrow> string"
  path_join :: "string \<Rightarrow> string \<Rightarrow> string"

text \<open>
  The fields of class \<open>Newer\<close>. After \<open>_checkOptions\<close> a truthy \<open>dest\<close> or \<open>ext\<close> is a
  string and a truthy \<open>map\<close> is a function, and the class only ever tests these three
  fields for truthiness: a falsy value that is not a string (function) is stored as
  \<open>None\<close>. \<open>n_bufferedFiles = None\<close> is \<open>null\<close>; \<open>n_destStats\<close> and \<open>n_extraStats\<close> are
  \<open>None\<close> for \<open>null\<close> or \<open>undefined\<close>. \<open>pushed\<close> is what \<open>this.push\<close> has handed
  downstream so far, oldest first.
\<close>

record newer =
  n_dest :: "string option"
  n_ext :: "string option"
  n_map :: "(string \<Rightarrow> string) option"
  n_timestamp :: timestamp
  n_destStats :: "stats option"
  n_bufferedFiles :: "vinyl list option"
  n_all :: bool
  n_extraStats :: "stats option"
  pushed :: "vinyl list"

fun js_string :: "jsval \<Rightarrow> string option" where
  "js_string (JStr s) = Some s"
| "js_string v = None"

fun js_function :: "jsval \<Rightarrow> (string \<Rightarrow> string) option" where
  "js_function (JFun f) = Some f"
| "js_function v = None"

text \<open>Truthiness of a stored string field: set and not the empty string.\<close>

fun nonempty :: "string option \<Rightarrow> bool" where
  "nonempty None = False"
| "nonempty (Some s) = (s \<noteq> [])"

section \<open>Construction\<close>

definition msg_no_options :: string where
  "msg_no_options = ''Requires a dest string or options object''"

definition msg_dest :: string where
  "msg_dest = ''Requires a dest string''"

definition msg_ext :: string where
  "msg_ext = ''Requires ext to be a string''"

definition msg_map :: string where
  "msg_map = ''Requires map to be a function''"

definition msg_either :: string where
  "msg_either = ''Requires either options.dest or options.map or both''"

definition msg_extra :: string where
  "msg_extra = ''Requires options.extra to be a string or array''"

text \<open>
  \<open>_checkOptions\<close>: throws, or returns the options with a string \<open>extra\<close> put in a
  one-element array (the source assigns \<open>options.extra\<close> in place). \<open>None\<close> is a missing
  argument.
\<close>

definition checkOptions :: "options option \<Rightarrow> error + options" where
  "checkOptions options =
     (case options of
        None \<Rightarrow> Inl (PluginError msg_no_options)
      | Some opts \<Rightarrow>
          if truthy (opt_dest opts) \<and> \<not> is_string (opt_dest opts) then
            Inl (PluginError msg_dest)
          else if truthy (opt_ext opts) \<and> \<not> is_string (opt_ext opts) then
            Inl (PluginError msg_ext)
          else if truthy (opt_map opts) \<and> \<not> is_function (opt_map opts) then
            Inl (PluginError msg_map)
          else if \<not> truthy (opt_dest opts) \<and> \<not> truthy (opt_map opts) then
            Inl (PluginError msg_either)
          else if truthy (opt_extra opts) then
            (if is_string (opt_extra opts) then
               Inr (opts\<lparr>opt_extra := JArr [opt_extra opts]\<rparr>)
             else if \<not> isArray (opt_extra opts) then
               Inl (PluginError msg_extra)
             else Inr opts)
          else Inr opts)"

text \<open>
  The call \<open>fs.statSync(p, { throwIfNoEntry: false })\<close> of the constructor: the module
  tests no error code here, it takes what the call returns and lets pass what it throws.
\<close>

definition statSync_noentry :: "platform \<Rightarrow> string \<Rightarrow> error + stats option" where
  "statSync_noentry pf p =
     (case fs_statSync_noentry pf p of
        Inr r \<Rightarrow> Inr r
      | Inl e \<Rightarrow> Inl (JsError e))"

text \<open>The first loop of \<open>_getExtraStats\<close>: one \<open>glob.sync\<close> per pattern, in order.\<close>

fun glob_each :: "platform \<Rightarrow> jsval list \<Rightarrow> error + string list list" where
  "glob_each pf [] = Inr []"
| "glob_each pf (p # ps) =
     (case glob_sync pf p of
        Inl e \<Rightarrow> Inl (JsError e)
      | Inr found \<Rightarrow>
          (case glob_each pf ps of
             Inl e \<Rightarrow> Inl e
           | Inr rest \<Rightarrow> Inr (found # rest)))"

text \<open>The \<open>catch\<close> block of the third loop.\<close>

definition extra_stat_error :: "js_error \<Rightarrow> error" where
  "extra_stat_error e =
     (if nonempty (err_path e) then
        PluginError (''Failed to read stats for an extra file: '' @ the (err_path e))
      else
        PluginError (''Failed to stat extra files; unknown error: '' @ err_text e))"

text \<open>The third loop: \<open>fs.statSync\<close> on every file, in order, stopping at the first throw.\<close>

fun stat_each :: "platform \<Rightarrow> string list \<Rightarrow> error + stats list" where
  "stat_each pf [] = Inr []"
| "stat_each pf (p # ps) =
     (case fs_statSync pf p of
        Inl e \<Rightarrow> Inl (extra_stat_error e)
      | Inr s \<Rightarrow>
          (case stat_each pf ps of
             Inl e \<Rightarrow> Inl e
           | Inr rest \<Rightarrow> Inr (s # rest)))"

text \<open>The last loop, from \<open>j = 1\<close>: a later record replaces the latest only when greater.\<close>

fun latest_from :: "timestamp \<Rightarrow> stats \<Rightarrow> stats list \<Rightarrow> stats" where
  "latest_from ts latestStat [] = latestStat"
| "latest_from ts latestStat (s # ss) =
     latest_from ts (if stamp ts s > stamp ts latestStat then s else latestStat) ss"

text \<open>\<open>extraStats[0]\<close> of an empty array is \<open>undefined\<close>, and the loop does not run.\<close>

fun latestStat :: "timestamp \<Rightarrow> stats list \<Rightarrow> stats option" where
  "latestStat ts [] = None"
| "latestStat ts (s # ss) = Some (latest_from ts s ss)"

text \<open>\<open>options.extra\<close> is an array when \<open>_getExtraStats\<close> runs; \<open>patterns\<close> reads it.\<close>

fun patterns :: "jsval \<Rightarrow> jsval list" where
  "patterns (JArr ps) = ps"
| "patterns v = []"

definition getExtraStats :: "platform \<Rightarrow> newer \<Rightarrow> options \<Rightarrow> error + newer" where
  "getExtraStats pf n opts =
     (case glob_each pf (patterns (opt_extra opts)) of
        Inl e \<Rightarrow> Inl e
      | Inr extraFiles \<Rightarrow>
          (case stat_each pf (concat extraFiles) of
             Inl e \<Rightarrow> Inl e
           | Inr extraStats \<Rightarrow>
               Inr (n\<lparr>n_extraStats := latestStat (n_timestamp n) extraStats\<rparr>)))"

text \<open>The constructor of \<open>Newer\<close>.\<close>

definition Newer :: "platform \<Rightarrow> options option \<Rightarrow> error + newer" where
  "Newer pf options =
     (case checkOptions options of
        Inl e \<Rightarrow> Inl e
      | Inr opts \<Rightarrow>
          (case (if truthy (opt_dest opts)
                 then statSync_noentry pf (the (js_string (opt_dest opts)))
                 else Inr None) of
             Inl e \<Rightarrow> Inl e
           | Inr destStats \<Rightarrow>
               (let n = \<lparr>n_dest = js_string (opt_dest opts),
                         n_ext = js_string (opt_ext opts),
                         n_map = js_function (opt_map opts),
                         n_timestamp = (if truthy (opt_ctime opts) then Ctime else Mtime),
                         n_destStats = destStats,
                         n_bufferedFiles = None,
                         n_all = False,
                         n_extraStats = None,
                         pushed = []\<rparr>
                in if truthy (opt_extra opts) then getExtraStats pf n opts else Inr n)))"

text \<open>
  The exported factory: a string argument is the destination. The argument is a string,
  an options object, or missing.
\<close>

datatype newer_arg = ArgString string | ArgOptions "options option"

fun newer_factory :: "platform \<Rightarrow> newer_arg \<Rightarrow> error + newer" where
  "newer_factory pf (ArgString s) =
     Newer pf (Some \<lparr>opt_dest = JStr s, opt_ext = JUndefined, opt_map = JUndefined,
                     opt_extra = JUndefined, opt_ctime = JUndefined\<rparr>)"
| "newer_factory pf (ArgOptions options) = Newer pf options"

section \<open>Per-file processing\<close>

definition replaceExtension :: "platform \<Rightarrow> string \<Rightarrow> string option \<Rightarrow> string" where
  "replaceExtension pf file ext =
     (if \<not> nonempty ext then file
      else
        (let original = path_extname pf file;
             noExt = take (length file - length original) file
         in noExt @ the ext))"

text \<open>The path \<open>_specialStat\<close> hands to \<open>fs.statSync\<close>.\<close>

definition destFileJoined :: "platform \<Rightarrow> newer \<Rightarrow> vinyl \<Rightarrow> string" where
  "destFileJoined pf n srcFile =
     (let relative = relative srcFile;
          destFileRelative = replaceExtension pf relative (n_ext n);
          destFileRelative = (case n_map n of
                                None \<Rightarrow> destFileRelative
                              | Some f \<Rightarrow> f destFileRelative)
      in if nonempty (n_dest n)
         then path_join pf (the (n_dest n)) destFileRelative
         else destFileRelative)"

definition specialStat :: "platform \<Rightarrow> newer \<Rightarrow> vinyl \<Rightarrow> error + stats option" where
  "specialStat pf n srcFile =
     (case fs_statSync pf (destFileJoined pf n srcFile) of
        Inr s \<Rightarrow> Inr (Some s)
      | Inl err \<Rightarrow> if err_code err \<noteq> Some ''ENOENT'' then Inl (JsError err) else Inr None)"

text \<open>The test of \<open>_getDestStats\<close> that chooses between the two ways of finding the destination.\<close>

definition perFile :: "newer \<Rightarrow> bool" where
  "perFile n =
     ((case n_destStats n of None \<Rightarrow> False | Some s \<Rightarrow> isDirectory s)
      \<or> nonempty (n_ext n) \<or> n_map n \<noteq> None)"

text \<open>\<open>_getDestStats\<close> allocates the buffer on the shared-destination path.\<close>

definition getDestStats :: "platform \<Rightarrow> newer \<Rightarrow> vinyl \<Rightarrow> (error + stats option) \<times> newer" where
  "getDestStats pf n srcFile =
     (if perFile n then (specialStat pf n srcFile, n)
      else
        (let n' = (if n_bufferedFiles n = None then n\<lparr>n_bufferedFiles := Some []\<rparr> else n)
         in (Inr (n_destStats n'), n')))"

definition msg_null_dest :: string where
  "msg_null_dest = ''Cannot read properties of null''"

text \<open>
  \<open>_isNewer\<close>. The first condition reads \<open>dest[ts]\<close> whenever \<open>_extraStats\<close> is set; on a
  \<open>dest\<close> that is \<open>null\<close> or \<open>undefined\<close> that read throws a \<open>TypeError\<close>.
\<close>

definition isNewer :: "newer \<Rightarrow> stats option \<Rightarrow> stats \<Rightarrow> error + bool" where
  "isNewer n dest src =
     (let ts = n_timestamp n in
      case (case n_extraStats n of
              None \<Rightarrow> Inr False
            | Some x \<Rightarrow>
                (case dest of
                   None \<Rightarrow> Inl (TypeError msg_null_dest)
                 | Some d \<Rightarrow> Inr (stamp ts x > stamp ts d))) of
        Inl e \<Rightarrow> Inl e
      | Inr True \<Rightarrow> Inr True
      | Inr False \<Rightarrow>
          (case dest of
             None \<Rightarrow> Inr True
           | Some d \<Rightarrow> Inr (stamp ts src > stamp ts d)))"

text \<open>
  \<open>push\<close> hands the file downstream. (The override catches what a downstream handler
  throws and emits it as an \<open>error\<close> event; the consumer is outside this model.)
\<close>

definition push :: "newer \<Rightarrow> vinyl \<Rightarrow> newer" where
  "push n f = n\<lparr>pushed := pushed n @ [f]\<rparr>"

definition bufferPush :: "newer \<Rightarrow> vinyl \<Rightarrow> bool \<Rightarrow> newer" where
  "bufferPush n srcFile newer =
     (if n_all n then push n srcFile
      else if \<not> newer then
        (case n_bufferedFiles n of
           None \<Rightarrow> n
         | Some buffered \<Rightarrow> n\<lparr>n_bufferedFiles := Some (buffered @ [srcFile])\<rparr>)
      else
        (case n_bufferedFiles n of
           None \<Rightarrow> push n srcFile
         | Some buffered \<Rightarrow>
             push ((foldl push n buffered)\<lparr>n_bufferedFiles := Some [], n_all := True\<rparr>) srcFile))"

definition msg_no_stats :: string where
  "msg_no_stats = ''Expected a source file with stats''"

text \<open>
  \<open>_transform\<close>: the error handed to \<open>done\<close> or thrown, if any, and the instance
  afterwards. \<open>None\<close> for \<open>srcFile\<close> is a chunk that is \<open>null\<close>.
\<close>

definition transform :: "platform \<Rightarrow> newer \<Rightarrow> vinyl option \<Rightarrow> error option \<times> newer" where
  "transform pf n srcFile =
     (case srcFile of
        None \<Rightarrow> (Some (PluginError msg_no_stats), n)
      | Some f \<Rightarrow>
          (case stat f of
             None \<Rightarrow> (Some (PluginError msg_no_stats), n)
           | Some srcStat \<Rightarrow>
               (case getDestStats pf n f of
                  (Inl e, n1) \<Rightarrow> (Some e, n1)
                | (Inr destStats, n1) \<Rightarrow>
                    (case isNewer n1 destStats srcStat of
                       Inl e \<Rightarrow> (Some e, n1)
                     | Inr newer \<Rightarrow> (None, bufferPush n1 f newer)))))"

definition flush :: "newer \<Rightarrow> newer" where
  "flush n = n\<lparr>n_bufferedFiles := None\<rparr>"

text \<open>
  The stream writes the files one at a time, the next one once \<open>done\<close> was called; an
  error ends the sequence, and \<open>_flush\<close> runs at the end of a sequence without error.
\<close>

fun feed :: "platform \<Rightarrow> newer \<Rightarrow> vinyl list \<Rightarrow> error option \<times> newer" where
  "feed pf n [] = (None, n)"
| "feed pf n (f # fs) =
     (case transform pf n (Some f) of
        (Some e, n') \<Rightarrow> (Some e, n')
      | (None, n') \<Rightarrow> feed pf n' fs)"

definition run :: "platform \<Rightarrow> newer \<Rightarrow> vinyl list \<Rightarrow> error option \<times> newer" where
  "run pf n files =
     (case feed pf n files of
        (Some e, n') \<Rightarrow> (Some e, n')
      | (None, n') \<Rightarrow> (None, flush n'))"

text \<open>
  The way the tests drive the module, \<open>write(newer(arg), paths)\<close>: build the stream, write
  the files, end it. The result is the error, if any, and the files handed downstream.
\<close>

definition pipeline :: "platform \<Rightarrow> newer_arg \<Rightarrow> vinyl list \<Rightarrow> error option \<times> vinyl list" where
  "pipeline pf arg files =
     (case newer_factory pf arg of
        Inl e \<Rightarrow> (Some e, [])
      | Inr n \<Rightarrow> (case run pf n files of (err, n') \<Rightarrow> (err, pushed n')))"

text \<open>The files held in the buffer (\<open>null\<close> holds none).\<close>

definition buf :: "newer \<Rightarrow> vinyl list" where
  "buf n = (case n_bufferedFiles n of None \<Rightarrow> [] | Some b \<Rightarrow> b)"

section \<open>The promise-based implementation\<close>

text \<open>
  The earlier class \<open>Newer\<close>, which stats through promises of the library \<open>kew\<close>. The
  filesystem is a fixed snapshot and one file is in flight at a time, so a promise is
  modelled by the way it settles: \<open>Inl\<close> the reason of a rejection, \<open>Inr\<close> the value.
  \<open>Q.nfcall(fs.stat, p)\<close> settles as the snapshot's stat of \<open>p\<close> does (absence is a
  rejection with code \<open>ENOENT\<close>), \<open>Q.nfcall(glob, p)\<close> as the snapshot's glob; \<open>Q.all\<close>
  is rejected with the rejection of the first rejected member in the order of the array;
  \<open>then\<close> and \<open>spread\<close> skip their function on a rejection; \<open>fail\<close> runs its function
  on a rejection only; what a function throws rejects the promise it feeds.
\<close>

record newerQ =
  q_dest :: "string option"
  q_ext :: "string option"
  q_map :: "(string \<Rightarrow> string) option"
  q_timestamp :: timestamp
  q_destStats :: "error + stats option"
  q_bufferedFiles :: "vinyl list option"
  q_all :: bool
  q_extraStats :: "error + stats option"
  q_pushed :: "vinyl list"

text \<open>The checks at the head of the constructor.\<close>

definition checkOptionsQ :: "options option \<Rightarrow> error + options" where
  "checkOptionsQ options =
     (case options of
        None \<Rightarrow> Inl (PluginError msg_no_options)
      | Some opts \<Rightarrow>
          if truthy (opt_dest opts) \<and> \<not> is_string (opt_dest opts) then
            Inl (PluginError msg_dest)
          else if truthy (opt_ext opts) \<and> \<not> is_string (opt_ext opts) then
            Inl (PluginError msg_ext)
          else if truthy (opt_map opts) \<and> \<not> is_function (opt_map opts) then
            Inl (PluginError msg_map)
          else if \<not> truthy (opt_dest opts) \<and> \<not> truthy (opt_map opts) then
            Inl (PluginError msg_either)
          else if truthy (opt_extra opts) then
            (if is_string (opt_extra opts) then
               Inr (opts\<lparr>opt_extra := JArr [opt_extra opts]\<rparr>)
             else if \<not> isArray (opt_extra opts) then
               Inl (PluginError msg_extra)
             else Inr opts)
          else Inr opts)"

text \<open>\<open>Q.all\<close> over the globs of the patterns, and over the stats of the files.\<close>

fun globQ :: "platform \<Rightarrow> jsval list \<Rightarrow> js_error + string list list" where
  "globQ pf [] = Inr []"
| "globQ pf (p # ps) =
     (case glob_sync pf p of
        Inl e \<Rightarrow> Inl e
      | Inr found \<Rightarrow> (case globQ pf ps of Inl e \<Rightarrow> Inl e | Inr rest \<Rightarrow> Inr (found # rest)))"

fun statQ :: "platform \<Rightarrow> string list \<Rightarrow> js_error + stats list" where
  "statQ pf [] = Inr []"
| "statQ pf (p # ps) =
     (case fs_statSync pf p of
        Inl e \<Rightarrow> Inl e
      | Inr s \<Rightarrow> (case statQ pf ps of Inl e \<Rightarrow> Inl e | Inr rest \<Rightarrow> Inr (s # rest)))"

text \<open>
  The promise stored in \<open>_extraStats\<close>: glob, stat, keep the latest; the \<open>fail\<close> at the
  end of the chain turns any rejection into a plugin error, with the same two messages
  as the \<open>catch\<close> block of the synchronous version.
\<close>

definition extraStatsQ :: "platform \<Rightarrow> timestamp \<Rightarrow> options \<Rightarrow> error + stats option" where
  "extraStatsQ pf ts opts =
     (case globQ pf (patterns (opt_extra opts)) of
        Inl e \<Rightarrow> Inl (extra_stat_error e)
      | Inr fileArrays \<Rightarrow>
          (case statQ pf (concat fileArrays) of
             Inl e \<Rightarrow> Inl (extra_stat_error e)
           | Inr resolvedStats \<Rightarrow> Inr (latestStat ts resolvedStats)))"

text \<open>The constructor: after the checks nothing throws, the stats are promises.\<close>

definition NewerQ :: "platform \<Rightarrow> options option \<Rightarrow> error + newerQ" where
  "NewerQ pf options =
     (case checkOptionsQ options of
        Inl e \<Rightarrow> Inl e
      | Inr opts \<Rightarrow>
          (let ts = (if truthy (opt_ctime opts) then Ctime else Mtime) in
           Inr \<lparr>q_dest = js_string (opt_dest opts),
                q_ext = js_string (opt_ext opts),
                q_map = js_function (opt_map opts),
                q_timestamp = ts,
                q_destStats =
                  (if truthy (opt_dest opts)
                   then (case fs_statSync pf (the (js_string (opt_dest opts))) of
                           Inl e \<Rightarrow> Inl (JsError e)
                         | Inr s \<Rightarrow> Inr (Some s))
                   else Inr None),
                q_bufferedFiles = None,
                q_all = False,
                q_extraStats =
                  (if truthy (opt_extra opts) then extraStatsQ pf ts opts else Inr None),
                q_pushed = []\<rparr>))"

text \<open>The path stat'ed for a file in the first \<open>spread\<close>.\<close>

definition destFileJoinedQ :: "platform \<Rightarrow> newerQ \<Rightarrow> vinyl \<Rightarrow> string" where
  "destFileJoinedQ pf q srcFile =
     (let relative = relative srcFile;
          ext = path_extname pf relative;
          destFileRelative =
            (if nonempty (q_ext q)
             then take (length relative - length ext) relative @ the (q_ext q)
             else relative);
          destFileRelative = (case q_map q of
                                None \<Rightarrow> destFileRelative
                              | Some f \<Rightarrow> f destFileRelative)
      in if nonempty (q_dest q)
         then path_join pf (the (q_dest q)) destFileRelative
         else destFileRelative)"

text \<open>
  The first \<open>spread\<close>: rejected when one of the two stored promises is; otherwise it
  stats the file's own destination, or allocates the buffer and passes the stored stats.
\<close>

definition firstSpread ::
  "platform \<Rightarrow> newerQ \<Rightarrow> vinyl \<Rightarrow> (error + stats option \<times> stats option) \<times> newerQ" where
  "firstSpread pf q srcFile =
     (case q_destStats q of
        Inl e \<Rightarrow> (Inl e, q)
      | Inr destStats \<Rightarrow>
          (case q_extraStats q of
             Inl e \<Rightarrow> (Inl e, q)
           | Inr extraStats \<Rightarrow>
               if (case destStats of None \<Rightarrow> False | Some s \<Rightarrow> isDirectory s)
                  \<or> nonempty (q_ext q) \<or> q_map q \<noteq> None
               then
                 (case fs_statSync pf (destFileJoinedQ pf q srcFile) of
                    Inl e \<Rightarrow> (Inl (JsError e), q)
                  | Inr s \<Rightarrow> (Inr (Some s, extraStats), q))
               else
                 (Inr (destStats, extraStats),
                  if q_bufferedFiles q = None then q\<lparr>q_bufferedFiles := Some []\<rparr> else q)))"

text \<open>\<open>err.code\<close> of a rejection: only an error of the filesystem or of glob may have one.\<close>

fun code_of :: "error \<Rightarrow> string option" where
  "code_of (JsError e) = err_code e"
| "code_of e = None"

text \<open>
  The \<open>fail\<close> after it. Its callback is a plain function, so \<open>this\<close> in
  \<open>this._extraStats\<close> is not the stream but whatever the promise library calls the
  callback on; \<open>thisExtraStats\<close> is what that read gives: \<open>Inr None\<close> for an object
  without the property (the promise itself, say), a \<open>TypeError\<close> if \<open>this\<close> is
  \<open>undefined\<close>.
\<close>

definition failEnoent ::
  "error + stats option \<Rightarrow> error + stats option \<times> stats option
     \<Rightarrow> error + stats option \<times> stats option" where
  "failEnoent thisExtraStats r =
     (case r of
        Inr v \<Rightarrow> Inr v
      | Inl err \<Rightarrow>
          if code_of err = Some ''ENOENT'' then
            (case thisExtraStats of Inl t \<Rightarrow> Inl t | Inr x \<Rightarrow> Inr (None, x))
          else Inl err)"

text \<open>
  The value of \<open>newer\<close> in the second \<open>spread\<close> (the synchronous variant that inlines
  \<open>_transform\<close> computes it with the same two statements); the read
  \<open>destFileStats[timestamp]\<close> throws when extra stats are there and the destination
  stats are \<open>null\<close>.
\<close>

definition newerQ_of :: "timestamp \<Rightarrow> stats option \<Rightarrow> stats option \<Rightarrow> stats \<Rightarrow> error + bool" where
  "newerQ_of ts destFileStats extraFileStats src =
     (let newer = (case destFileStats of None \<Rightarrow> True | Some d \<Rightarrow> stamp ts src > stamp ts d) in
      case extraFileStats of
        None \<Rightarrow> Inr newer
      | Some x \<Rightarrow>
          (case destFileStats of
             None \<Rightarrow> Inl (TypeError msg_null_dest)
           | Some d \<Rightarrow> Inr (if stamp ts x > stamp ts d then True else newer)))"

definition pushQ :: "newerQ \<Rightarrow> vinyl \<Rightarrow> newerQ" where
  "pushQ q f = q\<lparr>q_pushed := q_pushed q @ [f]\<rparr>"

text \<open>The rest of the second \<open>spread\<close>.\<close>

definition passQ :: "newerQ \<Rightarrow> vinyl \<Rightarrow> bool \<Rightarrow> newerQ" where
  "passQ q srcFile newer =
     (if q_all q then pushQ q srcFile
      else if \<not> newer then
        (case q_bufferedFiles q of
           None \<Rightarrow> q
         | Some buffered \<Rightarrow> q\<lparr>q_bufferedFiles := Some (buffered @ [srcFile])\<rparr>)
      else
        (case q_bufferedFiles q of
           None \<Rightarrow> pushQ q srcFile
         | Some buffered \<Rightarrow>
             pushQ ((foldl pushQ q buffered)\<lparr>q_bufferedFiles := Some [], q_all := True\<rparr>) srcFile))"

text \<open>\<open>_transform\<close>: the chain, ending in \<open>done()\<close> or, through \<open>fail(done)\<close>, in \<open>done(err)\<close>.\<close>

definition transformQ ::
  "platform \<Rightarrow> error + stats option \<Rightarrow> newerQ \<Rightarrow> vinyl option \<Rightarrow> error option \<times> newerQ" where
  "transformQ pf thisExtraStats q srcFile =
     (case srcFile of
        None \<Rightarrow> (Some (PluginError msg_no_stats), q)
      | Some f \<Rightarrow>
          (case stat f of
             None \<Rightarrow> (Some (PluginError msg_no_stats), q)
           | Some srcStat \<Rightarrow>
               (case firstSpread pf q f of
                  (r, q1) \<Rightarrow>
                    (case failEnoent thisExtraStats r of
                       Inl e \<Rightarrow> (Some e, q1)
                     | Inr (destFileStats, extraFileStats) \<Rightarrow>
                         (case newerQ_of (q_timestamp q1) destFileStats extraFileStats srcStat of
                            Inl e \<Rightarrow> (Some e, q1)
                          | Inr newer \<Rightarrow> (None, passQ q1 f newer))))))"

definition flushQ :: "newerQ \<Rightarrow> newerQ" where
  "flushQ q = q\<lparr>q_bufferedFiles := None\<rparr>"

fun feedQ :: "platform \<Rightarrow> error + stats option \<Rightarrow> newerQ \<Rightarrow> vinyl list \<Rightarrow> error option \<times> newerQ" where
  "feedQ pf t q [] = (None, q)"
| "feedQ pf t q (f # fs) =
     (case transformQ pf t q (Some f) of
        (Some e, q') \<Rightarrow> (Some e, q')
      | (None, q') \<Rightarrow> feedQ pf t q' fs)"

definition runQ :: "platform \<Rightarrow> error + stats option \<Rightarrow> newerQ \<Rightarrow> vinyl list \<Rightarrow> error option \<times> newerQ" where
  "runQ pf t q files =
     (case feedQ pf t q files of
        (Some e, q') \<Rightarrow> (Some e, q')
      | (None, q') \<Rightarrow> (None, flushQ q'))"

text \<open>The tests' way of driving it: build the stream, write the files, end it.\<close>

definition pipelineQ ::
  "platform \<Rightarrow> error + stats option \<Rightarrow> options option \<Rightarrow> vinyl list \<Rightarrow> error option \<times> vinyl list" where
  "pipelineQ pf t options files =
     (case NewerQ pf options of
        Inl e \<Rightarrow> (Some e, [])
      | Inr q \<Rightarrow> (case runQ pf t q files of (err, q') \<Rightarrow> (err, q_pushed q')))"

section \<open>The vocabulary of the specification and of the proofs\<close>

text \<open>
  The staleness predicate as the specification writes it (4.4): the probe is Absent, or
  the source timestamp is greater than the probe's, or an extra watermark exists, the
  probe is Found and the watermark is greater than the probe's timestamp.
\<close>

definition isStale :: "stats option \<Rightarrow> stats option \<Rightarrow> timestamp \<Rightarrow> stats \<Rightarrow> bool" where
  "isStale probe extraWatermark ts src =
     (case probe of
        None \<Rightarrow> True
      | Some d \<Rightarrow>
          stamp ts src > stamp ts d
          \<or> (case extraWatermark of None \<Rightarrow> False | Some x \<Rightarrow> stamp ts x > stamp ts d))"

text \<open>
  A file whose decision can be taken: it carries stats and its destination probe is
  Found or Absent (the stat of its destination did not fail in another way).
\<close>

definition resolves :: "platform \<Rightarrow> newer \<Rightarrow> vinyl \<Rightarrow> bool" where
  "resolves pf n f =
     (case stat f of
        None \<Rightarrow> False
      | Some s \<Rightarrow> (case specialStat pf n f of Inl e \<Rightarrow> False | Inr probe \<Rightarrow> True))"

text \<open>\<open>isStale\<close> for one file alone, on its own probe.\<close>

definition staleAlone :: "platform \<Rightarrow> newer \<Rightarrow> vinyl \<Rightarrow> bool" where
  "staleAlone pf n f =
     (case stat f of
        None \<Rightarrow> False
      | Some s \<Rightarrow>
          (case specialStat pf n f of
             Inl e \<Rightarrow> False
           | Inr probe \<Rightarrow> isStale probe (n_extraStats n) (n_timestamp n) s))"

text \<open>
  The destination of the file is absent while an extra watermark is set: the one
  destination in shared mode, the file's own in per-file mode.
\<close>

definition absentUnderExtra :: "platform \<Rightarrow> newer \<Rightarrow> vinyl \<Rightarrow> bool" where
  "absentUnderExtra pf n f =
     (case n_extraStats n of
        None \<Rightarrow> False
      | Some x \<Rightarrow>
          if perFile n then (case specialStat pf n f of Inr None \<Rightarrow> True | _ \<Rightarrow> False)
          else n_destStats n = None)"

text \<open>
  The error a file ends the sequence with in per-file mode, if any: the plugin error
  for a file without stats, else what \<open>fs.statSync\<close> throws on the file's destination,
  unless its code is \<open>ENOENT\<close>.
\<close>

definition abortsWith :: "platform \<Rightarrow> newer \<Rightarrow> vinyl \<Rightarrow> error option" where
  "abortsWith pf n f =
     (case stat f of
        None \<Rightarrow> Some (PluginError msg_no_stats)
      | Some s \<Rightarrow>
          (case fs_statSync pf (destFileJoined pf n f) of
             Inr st \<Rightarrow> None
           | Inl err \<Rightarrow> if err_code err = Some ''ENOENT'' then None else Some (JsError err)))"

text \<open>
  Position \<open>i\<close> holds the first maximum of the selected timestamp: no record of the list
  is later than the one at \<open>i\<close>, and every record before \<open>i\<close> is strictly earlier.
\<close>

definition firstMaximum :: "timestamp \<Rightarrow> stats list \<Rightarrow> nat \<Rightarrow> bool" where
  "firstMaximum ts xs i =
     (i < length xs
      \<and> list_all (\<lambda>s. stamp ts s \<le> stamp ts (xs ! i)) xs
      \<and> list_all (\<lambda>s. stamp ts s < stamp ts (xs ! i)) (take i xs))"

text \<open>
  The condition under which the specification (4.1) has construction fail with a
  ConfigurationError, in its words: the configuration is absent; \<open>destination\<close> is
  present but not a string; \<open>extension\<close> is present but not a string; \<open>mapper\<close> is
  present but not callable; neither \<open>destination\<close> nor \<open>mapper\<close> is present;
  \<open>extraPatterns\<close> is present but is neither a string nor a list of strings.
\<close>

definition claimedConfigurationError :: "options option \<Rightarrow> bool" where
  "claimedConfigurationError options =
     (case options of
        None \<Rightarrow> True
      | Some cfg \<Rightarrow>
          (present (opt_dest cfg) \<and> \<not> is_string (opt_dest cfg))
          \<or> (present (opt_ext cfg) \<and> \<not> is_string (opt_ext cfg))
          \<or> (present (opt_map cfg) \<and> \<not> is_function (opt_map cfg))
          \<or> (\<not> present (opt_dest cfg) \<and> \<not> present (opt_map cfg))
          \<or> (present (opt_extra cfg) \<and> \<not> is_string (opt_extra cfg)
              \<and> \<not> (case opt_extra cfg of JArr vs \<Rightarrow> list_all is_string vs | _ \<Rightarrow> False)))"

text \<open>The destination stat of the constructor, on checked options.\<close>

definition destStatOf :: "platform \<Rightarrow> options \<Rightarrow> error + stats option" where
  "destStatOf pf opts =
     (if truthy (opt_dest opts)
      then statSync_noentry pf (the (js_string (opt_dest opts)))
      else Inr None)"


text \<open>
  The invariant of emission: what was handed downstream, followed by what the buffer
  holds, is a subsequence of the files seen so far; once the latch is set the buffer is
  empty.
\<close>

definition emit_inv :: "newer \<Rightarrow> vinyl list \<Rightarrow> bool" where
  "emit_inv n seen = (subseq (pushed n @ buf n) seen \<and> (n_all n \<longrightarrow> buf n = []))"


text \<open>
  The promise-based instance that matches a synchronous one: the same fields, the two
  stats as fulfilled promises.
\<close>

definition lift :: "newer \<Rightarrow> newerQ" where
  "lift n = \<lparr>q_dest = n_dest n, q_ext = n_ext n, q_map = n_map n, q_timestamp = n_timestamp n,
             q_destStats = Inr (n_destStats n), q_bufferedFiles = n_bufferedFiles n,
             q_all = n_all n, q_extraStats = Inr (n_extraStats n), q_pushed = pushed n\<rparr>"

section \<open>A POSIX platform and a filesystem for examples\<close>

text \<open>
  \<open>path.posix.extname\<close> of Node: the part of the last path segment (trailing slashes
  aside) from its last dot on; empty when there is no dot, when the dot is the first
  character of the segment, and for the segment \<open>..\<close>.
\<close>

definition posix_extname :: "string \<Rightarrow> string" where
  "posix_extname path =
     (let trimmed = rev (dropWhile (\<lambda>c. c = CHR ''/'') (rev path));
          base = rev (takeWhile (\<lambda>c. c \<noteq> CHR ''/'') (rev trimmed));
          after = rev (takeWhile (\<lambda>c. c \<noteq> CHR ''.'') (rev base))
      in if CHR ''.'' \<notin> set base \<or> Suc (length after) = length base \<or> base = ''..''
         then [] else CHR ''.'' # after)"

fun split_slash :: "string \<Rightarrow> string list" where
  "split_slash [] = [[]]"
| "split_slash (c # cs) =
     (if c = CHR ''/'' then [] # split_slash cs
      else (case split_slash cs of
              [] \<Rightarrow> [[c]]
            | seg # segs \<Rightarrow> (c # seg) # segs))"

fun join_slash :: "string list \<Rightarrow> string" where
  "join_slash [] = []"
| "join_slash [seg] = seg"
| "join_slash (seg # segs) = seg @ ''/'' @ join_slash segs"

text \<open>\<open>normalizeString\<close> of Node, one segment at a time.\<close>

fun normalize_segments :: "bool \<Rightarrow> string list \<Rightarrow> string list \<Rightarrow> string list" where
  "normalize_segments allowAboveRoot res [] = res"
| "normalize_segments allowAboveRoot res (seg # segs) =
     normalize_segments allowAboveRoot
       (if seg = [] \<or> seg = ''.'' then res
        else if seg = ''..'' then
          (if res \<noteq> [] \<and> last res \<noteq> ''..'' then butlast res
           else if allowAboveRoot then res @ [seg]
           else res)
        else res @ [seg])
       segs"

definition posix_normalize :: "string \<Rightarrow> string" where
  "posix_normalize path =
     (if path = [] then ''.''
      else
        (let isAbsolute = (hd path = CHR ''/'');
             trailingSeparator = (last path = CHR ''/'');
             p = join_slash (normalize_segments (\<not> isAbsolute) [] (split_slash path))
         in if p = [] then (if isAbsolute then ''/'' else if trailingSeparator then ''./'' else ''.'')
            else (if isAbsolute then ''/'' else []) @ p @ (if trailingSeparator then ''/'' else [])))"

text \<open>\<open>path.posix.join\<close> of two strings: the non-empty ones with a slash between, normalized.\<close>

definition posix_join :: "string \<Rightarrow> string \<Rightarrow> string" where
  "posix_join a b =
     (if a = [] \<and> b = [] then ''.''
      else if a = [] then posix_normalize b
      else if b = [] then posix_normalize a
      else posix_normalize (a @ ''/'' @ b))"

definition enoent :: "string \<Rightarrow> js_error" where
  "enoent p = \<lparr>err_code = Some ''ENOENT'', err_path = Some p,
               err_text = ''Error: ENOENT: no such file or directory''\<rparr>"

definition eacces :: "string \<Rightarrow> js_error" where
  "eacces p = \<lparr>err_code = Some ''EACCES'', err_path = Some p,
               err_text = ''Error: EACCES: permission denied''\<rparr>"

definition enotdir :: "string \<Rightarrow> js_error" where
  "enotdir p = \<lparr>err_code = Some ''ENOTDIR'', err_path = Some p,
                err_text = ''Error: ENOTDIR: not a directory''\<rparr>"

definition file_at :: "int \<Rightarrow> stats" where
  "file_at t = \<lparr>mtime = t, ctime = t, isDirectory = False\<rparr>"

text \<open>
  A filesystem in the manner of the tests: a directory \<open>dest\<close> holding \<open>output\<close> (150),
  \<open>file2\<close> (250), \<open>file1.ext2\<close> (50) and an entry \<open>locked\<close> that cannot be read; two
  extra files, \<open>imported\<close> (300) and \<open>config\<close> (modified at 300, changed at 20); nothing
  else exists. The stat of a path that leads through one of the regular files fails with
  \<open>ENOTDIR\<close>, that of any other missing path with \<open>ENOENT\<close>.
\<close>

definition mock_fs :: "string \<Rightarrow> js_error + stats" where
  "mock_fs p =
     (if p = ''dest'' then Inr \<lparr>mtime = 10, ctime = 10, isDirectory = True\<rparr>
      else if p = ''dest/output'' then Inr (file_at 150)
      else if p = ''dest/file2'' then Inr (file_at 250)
      else if p = ''dest/file1.ext2'' then Inr (file_at 50)
      else if p = ''dest/locked'' then Inl (eacces p)
      else if p = ''imported'' then Inr (file_at 300)
      else if p = ''config'' then Inr \<lparr>mtime = 300, ctime = 20, isDirectory = False\<rparr>
      else if list_ex (\<lambda>file. prefix (file @ ''/'') p)
                [''dest/output'', ''dest/file2'', ''dest/file1.ext2'', ''imported'', ''config'']
      then Inl (enotdir p)
      else Inl (enoent p))"

text \<open>
  \<open>fs.statSync(p, { throwIfNoEntry: false })\<close> as Node has it on a filesystem: \<open>undefined\<close>
  where the plain call fails with \<open>ENOENT\<close> or with \<open>ENOTDIR\<close>; any other error is thrown.
\<close>

definition node_noentry :: "(string \<Rightarrow> js_error + stats) \<Rightarrow> string \<Rightarrow> js_error + stats option" where
  "node_noentry fs p =
     (case fs p of
        Inr s \<Rightarrow> Inr (Some s)
      | Inl e \<Rightarrow>
          if err_code e = Some ''ENOENT'' \<or> err_code e = Some ''ENOTDIR'' then Inr None
          else Inl e)"

text \<open>A glob for patterns without wildcards: the pattern itself when it exists.\<close>

definition literal_glob :: "(string \<Rightarrow> js_error + stats) \<Rightarrow> jsval \<Rightarrow> js_error + string list" where
  "literal_glob fs v =
     (case v of
        JStr s \<Rightarrow> (case fs s of Inr st \<Rightarrow> Inr [s] | Inl e \<Rightarrow> Inr [])
      | _ \<Rightarrow> Inl \<lparr>err_code = None, err_path = None,
                  err_text = ''TypeError: glob pattern string required''\<rparr>)"

definition mock_pf :: platform where
  "mock_pf = \<lparr>fs_statSync = mock_fs, fs_statSync_noentry = node_noentry mock_fs,
              glob_sync = literal_glob mock_fs,
              path_extname = posix_extname, path_join = posix_join\<rparr>"

text \<open>
  The same, with a dangling symbolic link \<open>gone\<close>: glob lists it, and its stat, which
  follows the link, finds no entry.
\<close>

definition link_pf :: platform where
  "link_pf = \<lparr>fs_statSync = mock_fs, fs_statSync_noentry = node_noentry mock_fs,
              glob_sync = (\<lambda>v. case js_string v of
                                  None \<Rightarrow> literal_glob mock_fs v
                                | Some s \<Rightarrow> if s = ''gone'' then Inr [s] else literal_glob mock_fs v),
              path_extname = posix_extname, path_join = posix_join\<rparr>"

definition no_options :: options where
  "no_options = \<lparr>opt_dest = JUndefined, opt_ext = JUndefined, opt_map = JUndefined,
                  opt_extra = JUndefined, opt_ctime = JUndefined\<rparr>"

definition source :: "string \<Rightarrow> int \<Rightarrow> vinyl" where
  "source name t = \<lparr>relative = name, stat = Some (file_at t)\<rparr>"

text \<open>The instance \<open>newer("dest")\<close> builds on that filesystem: \<open>dest\<close> is a directory.\<close>

definition dest_newer :: newer where
  "dest_newer = \<lparr>n_dest = Some ''dest'', n_ext = None, n_map = None, n_timestamp = Mtime,
      n_destStats = Some \<lparr>mtime = 10, ctime = 10, isDirectory = True\<rparr>,
      n_bufferedFiles = None, n_all = False, n_extraStats = None, pushed = []\<rparr>"

text \<open>The options \<open>{ dest: "dest", extra: [...] }\<close>.\<close>

definition dest_with_extra :: "jsval \<Rightarrow> options" where
  "dest_with_extra extra = no_options\<lparr>opt_dest := JStr ''dest'', opt_extra := extra\<rparr>"

text \<open>
  Options without a destination of their own: \<open>{ dest: "", map: p => join("dest", p) }\<close>,
  and the instance they build.
\<close>

definition joining_options :: options where
  "joining_options = no_options\<lparr>opt_dest := JStr [], opt_map := JFun (posix_join ''dest'')\<rparr>"

definition joining_newer :: newer where
  "joining_newer = \<lparr>n_dest = Some [], n_ext = None, n_map = Some (posix_join ''dest''),
      n_timestamp = Mtime, n_destStats = None, n_bufferedFiles = None, n_all = False,
      n_extraStats = None, pushed = []\<rparr>"

text \<open>The options \<open>{ dest: "dest", map: p => "/abs/" + p }\<close> and their instance.\<close>

definition absolute_options :: options where
  "absolute_options = no_options\<lparr>opt_dest := JStr ''dest'', opt_map := JFun (append ''/abs/'')\<rparr>"

definition absolute_newer :: newer where
  "absolute_newer = dest_newer\<lparr>n_map := Some (append ''/abs/'')\<rparr>"

text \<open>The options \<open>{ dest: "dest", ext: ".ext2" }\<close> and their instance.\<close>

definition ext_options :: options where
  "ext_options = no_options\<lparr>opt_dest := JStr ''dest'', opt_ext := JStr ''.ext2''\<rparr>"

definition ext_newer :: newer where
  "ext_newer = dest_newer\<lparr>n_ext := Some ''.ext2''\<rparr>"


text \<open>
  The instance \<open>newer({ dest: "missing", extra: "imported" })\<close> builds on that filesystem:
  no destination, and the watermark of \<open>imported\<close>.
\<close>

definition missing_newer :: newer where
  "missing_newer = \<lparr>n_dest = Some ''missing'', n_ext = None, n_map = None, n_timestamp = Mtime,
      n_destStats = None, n_bufferedFiles = None, n_all = False,
      n_extraStats = Some (file_at 300), pushed = []\<rparr>"

section \<open>Frame and step lemmas\<close>

text \<open>Unfolding sets for evaluating the examples.\<close>

lemmas construct_defs = Newer_def checkOptions_def statSync_noentry_def getExtraStats_def
  extra_stat_error_def no_options_def mock_pf_def mock_fs_def node_noentry_def literal_glob_def
  file_at_def enoent_def eacces_def enotdir_def

lemmas process_defs = transform_def getDestStats_def perFile_def isNewer_def bufferPush_def
  push_def flush_def run_def specialStat_def destFileJoined_def replaceExtension_def

lemmas posix_defs = posix_join_def posix_normalize_def posix_extname_def

lemmas example_defs = pipeline_def construct_defs process_defs posix_defs source_def

lemma foldl_push_eq: "foldl push n fs = n\<lparr>pushed := pushed n @ fs\<rparr>"
  by (induction fs arbitrary: n) (simp_all add: push_def)

lemma feed_append:
  "feed pf n (xs @ ys) =
     (case feed pf n xs of (Some e, n') \<Rightarrow> (Some e, n') | (None, n') \<Rightarrow> feed pf n' ys)"
  by (induction xs arbitrary: n) (auto split: prod.splits option.splits)

lemma isNewer_frame [simp]:
  "isNewer (n\<lparr>n_bufferedFiles := b\<rparr>) = isNewer n"
  "isNewer (n\<lparr>n_all := a\<rparr>) = isNewer n"
  "isNewer (n\<lparr>pushed := p\<rparr>) = isNewer n"
  by (simp_all add: isNewer_def fun_eq_iff)

lemma perFile_frame [simp]:
  "perFile (n\<lparr>n_bufferedFiles := b\<rparr>) = perFile n"
  "perFile (n\<lparr>n_all := a\<rparr>) = perFile n"
  "perFile (n\<lparr>pushed := p\<rparr>) = perFile n"
  by (simp_all add: perFile_def)

lemma specialStat_frame [simp]:
  "specialStat pf (n\<lparr>n_bufferedFiles := b\<rparr>) = specialStat pf n"
  "specialStat pf (n\<lparr>n_all := a\<rparr>) = specialStat pf n"
  "specialStat pf (n\<lparr>pushed := p\<rparr>) = specialStat pf n"
  by (simp_all add: specialStat_def destFileJoined_def fun_eq_iff Let_def cong: if_cong)

lemma buf_simps [simp]:
  "buf (n\<lparr>n_bufferedFiles := b\<rparr>) = (case b of None \<Rightarrow> [] | Some x \<Rightarrow> x)"
  "buf (n\<lparr>n_all := a\<rparr>) = buf n"
  "buf (n\<lparr>pushed := p\<rparr>) = buf n"
  by (simp_all add: buf_def)

text \<open>A fresh instance: no buffer, the latch open, nothing handed downstream.\<close>

lemma Newer_fresh:
  assumes "Newer pf options = Inr n"
  shows "n_bufferedFiles n = None" and "\<not> n_all n" and "pushed n = []"
  using assms
  by (auto simp: Newer_def getExtraStats_def Let_def split: sum.splits if_splits)

lemma flush_fresh: "n_bufferedFiles n = None \<Longrightarrow> n\<lparr>n_bufferedFiles := None\<rparr> = n"
  by (cases n) simp

text \<open>Whether the staleness decision raises does not depend on the source file.\<close>

lemma isNewer_raises_alike:
  "isNewer n d s = Inr r \<Longrightarrow> \<exists>r'. isNewer n d s' = Inr r'"
  by (auto simp: isNewer_def Let_def split: option.splits sum.splits bool.splits if_splits)

text \<open>Away from an absent destination under an extra watermark, \<open>_isNewer\<close> computes \<open>isStale\<close>.\<close>

lemma isNewer_isStale:
  assumes "n_extraStats n = None \<or> probe \<noteq> None"
  shows "isNewer n probe s = Inr (isStale probe (n_extraStats n) (n_timestamp n) s)"
  using assms
  by (auto simp: isNewer_def isStale_def Let_def split: option.splits bool.splits)

section \<open>Shared-destination mode\<close>

lemma transform_buffer:
  assumes "\<not> perFile n" "\<not> n_all n" "stat f = Some s"
    and "isNewer n (n_destStats n) s = Inr False"
  shows "transform pf n (Some f) = (None, n\<lparr>n_bufferedFiles := Some (buf n @ [f])\<rparr>)"
  using assms
  by (simp add: transform_def getDestStats_def bufferPush_def buf_def Let_def split: option.splits)

lemma transform_first_stale:
  assumes "\<not> perFile n" "\<not> n_all n" "stat f = Some s"
    and "isNewer n (n_destStats n) s = Inr True"
  shows "transform pf n (Some f) =
           (None, n\<lparr>n_bufferedFiles := Some [], n_all := True, pushed := pushed n @ buf n @ [f]\<rparr>)"
  using assms
  by (simp add: transform_def getDestStats_def bufferPush_def buf_def Let_def foldl_push_eq push_def
      split: option.splits)

lemma transform_pass_all:
  assumes "\<not> perFile n" "n_all n" "n_bufferedFiles n = Some b" "stat f = Some s"
    and "isNewer n (n_destStats n) s = Inr r"
  shows "transform pf n (Some f) = (None, n\<lparr>pushed := pushed n @ [f]\<rparr>)"
  using assms
  by (simp add: transform_def getDestStats_def bufferPush_def Let_def push_def)

lemma feed_buffering:
  assumes "\<not> perFile n" "\<not> n_all n"
    and "\<forall>f\<in>set fs. \<exists>s. stat f = Some s \<and> isNewer n (n_destStats n) s = Inr False"
  shows "feed pf n fs = (None, if fs = [] then n else n\<lparr>n_bufferedFiles := Some (buf n @ fs)\<rparr>)"
  using assms
proof (induction fs arbitrary: n)
  case Nil
  then show ?case by simp
next
  case (Cons f fs)
  then obtain s where s: "stat f = Some s" "isNewer n (n_destStats n) s = Inr False" by auto
  let ?n1 = "n\<lparr>n_bufferedFiles := Some (buf n @ [f])\<rparr>"
  have t: "transform pf n (Some f) = (None, ?n1)"
    using transform_buffer [OF Cons.prems(1,2) s] .
  have "feed pf ?n1 fs = (None, if fs = [] then ?n1 else ?n1\<lparr>n_bufferedFiles := Some (buf ?n1 @ fs)\<rparr>)"
    using Cons.prems by (intro Cons.IH) simp_all
  with t show ?case by simp
qed

lemma feed_pass_all:
  assumes "\<not> perFile n" "n_all n" "n_bufferedFiles n = Some b"
    and "\<forall>f\<in>set fs. \<exists>s r. stat f = Some s \<and> isNewer n (n_destStats n) s = Inr r"
  shows "feed pf n fs = (None, n\<lparr>pushed := pushed n @ fs\<rparr>)"
  using assms
proof (induction fs arbitrary: n)
  case Nil
  then show ?case by simp
next
  case (Cons f fs)
  then obtain s r where s: "stat f = Some s" "isNewer n (n_destStats n) s = Inr r" by auto
  let ?n1 = "n\<lparr>pushed := pushed n @ [f]\<rparr>"
  have t: "transform pf n (Some f) = (None, ?n1)"
    using transform_pass_all [OF Cons.prems(1,2,3) s] .
  have "feed pf ?n1 fs = (None, ?n1\<lparr>pushed := pushed ?n1 @ fs\<rparr>)"
    using Cons.prems by (intro Cons.IH) simp_all
  with t show ?case by simp
qed

section \<open>C1: all or nothing with a shared destination\<close>

lemma shared_stale_run:
  assumes fresh: "n_bufferedFiles n = None" "\<not> n_all n" "pushed n = []"
    and shared: "\<not> perFile n"
    and stats: "\<forall>f\<in>set (pre @ s # post). stat f \<noteq> None"
    and pre: "\<forall>f\<in>set pre. isNewer n (n_destStats n) (the (stat f)) = Inr False"
    and s: "isNewer n (n_destStats n) (the (stat s)) = Inr True"
  shows "feed pf n pre = (None, if pre = [] then n else n\<lparr>n_bufferedFiles := Some pre\<rparr>)"
    and "feed pf n (pre @ [s]) =
           (None, n\<lparr>n_bufferedFiles := Some [], n_all := True, pushed := pre @ [s]\<rparr>)"
    and "run pf n (pre @ s # post) = (None, n\<lparr>n_all := True, pushed := pre @ s # post\<rparr>)"
proof -
  let ?d = "n_destStats n"
  have b: "buf n = []" using fresh by (simp add: buf_def)
  have "\<forall>f\<in>set pre. \<exists>st. stat f = Some st \<and> isNewer n ?d st = Inr False"
    using stats pre by fastforce
  from feed_buffering [OF shared fresh(2) this, of pf]
  show 1: "feed pf n pre = (None, if pre = [] then n else n\<lparr>n_bufferedFiles := Some pre\<rparr>)"
    by (simp add: b)
  let ?n1 = "if pre = [] then n else n\<lparr>n_bufferedFiles := Some pre\<rparr>"
  obtain st where st: "stat s = Some st" using stats by auto
  have "transform pf ?n1 (Some s) =
          (None, ?n1\<lparr>n_bufferedFiles := Some [], n_all := True, pushed := pushed ?n1 @ buf ?n1 @ [s]\<rparr>)"
    using shared fresh st s by (intro transform_first_stale [where s = st]) simp_all
  then have t: "transform pf ?n1 (Some s) =
          (None, n\<lparr>n_bufferedFiles := Some [], n_all := True, pushed := pre @ [s]\<rparr>)"
    using fresh b by (cases "pre = []") simp_all
  show 2: "feed pf n (pre @ [s]) =
           (None, n\<lparr>n_bufferedFiles := Some [], n_all := True, pushed := pre @ [s]\<rparr>)"
    by (simp add: feed_append 1 t)
  let ?n2 = "n\<lparr>n_bufferedFiles := Some [], n_all := True, pushed := pre @ [s]\<rparr>"
  have "\<forall>f\<in>set post. \<exists>st' r. stat f = Some st' \<and> isNewer ?n2 (n_destStats ?n2) st' = Inr r"
  proof
    fix f assume "f \<in> set post"
    then obtain st' where "stat f = Some st'" using stats by auto
    moreover have "\<exists>r. isNewer n ?d st' = Inr r"
      using isNewer_raises_alike [OF s] by blast
    ultimately show "\<exists>st' r. stat f = Some st' \<and> isNewer ?n2 (n_destStats ?n2) st' = Inr r"
      by simp
  qed
  then have "feed pf ?n2 post = (None, ?n2\<lparr>pushed := pushed ?n2 @ post\<rparr>)"
    using shared by (intro feed_pass_all [where b = "[]"]) simp_all
  then have "feed pf n ((pre @ [s]) @ post) =
               (None, n\<lparr>n_bufferedFiles := Some [], n_all := True, pushed := pre @ s # post\<rparr>)"
    unfolding feed_append [of pf n "pre @ [s]" post] by (simp add: 2)
  then show "run pf n (pre @ s # post) = (None, n\<lparr>n_all := True, pushed := pre @ s # post\<rparr>)"
    using fresh(1) by (simp add: run_def flush_def)
qed

lemma shared_fresh_run:
  assumes fresh: "n_bufferedFiles n = None" "\<not> n_all n" "pushed n = []"
    and shared: "\<not> perFile n"
    and stats: "\<forall>f\<in>set files. stat f \<noteq> None"
    and all: "\<forall>f\<in>set files. isNewer n (n_destStats n) (the (stat f)) = Inr False"
  shows "feed pf n files = (None, if files = [] then n else n\<lparr>n_bufferedFiles := Some files\<rparr>)"
    and "run pf n files = (None, n)"
proof -
  have b: "buf n = []" using fresh by (simp add: buf_def)
  have "\<forall>f\<in>set files. \<exists>st. stat f = Some st \<and> isNewer n (n_destStats n) st = Inr False"
    using stats all by fastforce
  from feed_buffering [OF shared fresh(2) this, of pf]
  show 1: "feed pf n files = (None, if files = [] then n else n\<lparr>n_bufferedFiles := Some files\<rparr>)"
    by (simp add: b)
  show "run pf n files = (None, n)"
    using fresh(1) by (simp add: run_def 1 flush_def flush_fresh)
qed

text \<open>
  Away from an absent destination under an extra watermark, shared-destination mode is
  all or nothing, staleness being \<open>isStale\<close> of the specification against the one
  destination: while no file is stale the files are buffered and nothing is emitted; the
  first stale file makes the buffered files go out in arrival order, then itself, and
  the latch is set; every later file goes out, so the whole sequence is emitted; when no
  file is stale the end of the sequence drops the buffer, without emission and without
  error.
\<close>

lemma shared_mode_all_or_nothing:
  assumes new: "Newer pf options = Inr n"
    and shared: "\<not> perFile n"
    and stats: "\<forall>f\<in>set files. stat f \<noteq> None"
    and away: "n_extraStats n = None \<or> n_destStats n \<noteq> None"
  shows "(\<forall>pre s post.
            files = pre @ s # post \<and>
            (\<forall>f\<in>set pre. \<not> isStale (n_destStats n) (n_extraStats n) (n_timestamp n) (the (stat f))) \<and>
            isStale (n_destStats n) (n_extraStats n) (n_timestamp n) (the (stat s)) \<longrightarrow>
              feed pf n pre = (None, if pre = [] then n else n\<lparr>n_bufferedFiles := Some pre\<rparr>) \<and>
              feed pf n (pre @ [s]) =
                (None, n\<lparr>n_bufferedFiles := Some [], n_all := True, pushed := pre @ [s]\<rparr>) \<and>
              run pf n files = (None, n\<lparr>n_all := True, pushed := files\<rparr>))
       \<and> ((\<forall>f\<in>set files. \<not> isStale (n_destStats n) (n_extraStats n) (n_timestamp n) (the (stat f))) \<longrightarrow>
              feed pf n files =
                (None, if files = [] then n else n\<lparr>n_bufferedFiles := Some files\<rparr>) \<and>
              run pf n files = (None, n))
       \<and> (pushed (snd (run pf n files)) = [] \<or> pushed (snd (run pf n files)) = files)"
proof -
  note fresh = Newer_fresh [OF new]
  let ?d = "n_destStats n"
  let ?stale = "\<lambda>f. isStale ?d (n_extraStats n) (n_timestamp n) (the (stat f))"
  have dec: "isNewer n ?d s = Inr (isStale ?d (n_extraStats n) (n_timestamp n) s)" for s
    using isNewer_isStale [OF away] .
  have stale: "feed pf n pre = (None, if pre = [] then n else n\<lparr>n_bufferedFiles := Some pre\<rparr>) \<and>
        feed pf n (pre @ [s]) =
          (None, n\<lparr>n_bufferedFiles := Some [], n_all := True, pushed := pre @ [s]\<rparr>) \<and>
        run pf n files = (None, n\<lparr>n_all := True, pushed := files\<rparr>)"
    if "files = pre @ s # post" "\<forall>f\<in>set pre. \<not> ?stale f" "?stale s" for pre s post
  proof -
    from that(2) have p: "\<forall>f\<in>set pre. isNewer n ?d (the (stat f)) = Inr False"
      by (simp add: dec)
    from that(3) have s: "isNewer n ?d (the (stat s)) = Inr True"
      by (simp add: dec)
    from shared_stale_run [OF fresh shared _ p s, of post pf] stats that(1)
    show ?thesis by simp
  qed
  have none: "feed pf n files =
                (None, if files = [] then n else n\<lparr>n_bufferedFiles := Some files\<rparr>) \<and>
              run pf n files = (None, n)"
    if "\<forall>f\<in>set files. \<not> ?stale f"
  proof -
    from that have "\<forall>f\<in>set files. isNewer n ?d (the (stat f)) = Inr False"
      by (simp add: dec)
    from shared_fresh_run [OF fresh shared stats this, of pf] show ?thesis by simp
  qed
  have "pushed (snd (run pf n files)) = [] \<or> pushed (snd (run pf n files)) = files"
  proof (cases "\<forall>f\<in>set files. \<not> ?stale f")
    case True
    then show ?thesis using none fresh(3) by simp
  next
    case False
    then obtain pre s post where split: "files = pre @ s # post"
      "?stale s" "\<forall>f\<in>set pre. \<not> ?stale f"
      using split_list_first_prop [of files ?stale] by auto
    then show ?thesis using stale [OF split(1,3,2)] by simp
  qed
  with stale none show ?thesis by blast
qed

text \<open>
  C1 does not hold of the code. When the shared destination does not exist and an extra
  watermark is set, every file is stale (its destination is absent), so the first file
  should be emitted and every other file after it. Instead \<open>_isNewer\<close> reads the
  timestamp of the absent destination for the first file and throws: the sequence ends
  with that \<open>TypeError\<close>, and no file is emitted, whatever the files are. This is the
  defect of C2 in shared-destination mode; without the extra file the same sequence is
  emitted entirely.
\<close>

theorem shared_destination_absent_under_extra:
  assumes new: "Newer pf options = Inr n"
    and shared: "\<not> perFile n"
    and absent: "n_destStats n = None"
    and extra: "n_extraStats n = Some x"
    and stats: "stat f = Some s"
  shows "isStale (n_destStats n) (n_extraStats n) (n_timestamp n) s
       \<and> run pf n (f # fs) = (Some (TypeError msg_null_dest), n\<lparr>n_bufferedFiles := Some []\<rparr>)
       \<and> pushed (snd (run pf n (f # fs))) = []"
proof -
  note fresh = Newer_fresh [OF new]
  have "isStale (n_destStats n) (n_extraStats n) (n_timestamp n) s"
    using absent by (simp add: isStale_def)
  moreover have "run pf n (f # fs) = (Some (TypeError msg_null_dest), n\<lparr>n_bufferedFiles := Some []\<rparr>)"
    using shared absent extra stats fresh(1)
    by (simp add: run_def transform_def getDestStats_def isNewer_def Let_def)
  ultimately show ?thesis using fresh(3) by simp
qed

theorem shared_destination_absent_under_extra_witness:
  "Newer mock_pf (Some (no_options\<lparr>opt_dest := JStr ''missing'', opt_extra := JStr ''imported''\<rparr>)) =
     Inr missing_newer
   \<and> \<not> perFile missing_newer
   \<and> n_destStats missing_newer = None
   \<and> n_extraStats missing_newer = Some (file_at 300)
   \<and> stat (source ''file1'' 100) = Some (file_at 100)
   \<and> isStale (n_destStats missing_newer) (n_extraStats missing_newer) (n_timestamp missing_newer)
        (file_at 100)
   \<and> run mock_pf missing_newer [source ''file1'' 100, source ''file2'' 200] =
       (Some (TypeError msg_null_dest), missing_newer\<lparr>n_bufferedFiles := Some []\<rparr>)
   \<and> pipeline mock_pf
       (ArgOptions (Some (no_options\<lparr>opt_dest := JStr ''missing'', opt_extra := JStr ''imported''\<rparr>)))
       [source ''file1'' 100, source ''file2'' 200] = (Some (TypeError msg_null_dest), [])
   \<and> pipeline mock_pf (ArgString ''missing'') [source ''file1'' 100, source ''file2'' 200] =
       (None, [source ''file1'' 100, source ''file2'' 200])"
proof -
  let ?options = "Some (no_options\<lparr>opt_dest := JStr ''missing'', opt_extra := JStr ''imported''\<rparr>)"
  have h1: "Newer mock_pf ?options = Inr missing_newer"
    by (simp add: construct_defs missing_newer_def)
  have h2: "\<not> perFile missing_newer"
    by (simp add: perFile_def missing_newer_def)
  have h3: "n_destStats missing_newer = None"
    by (simp add: missing_newer_def)
  have h4: "n_extraStats missing_newer = Some (file_at 300)"
    by (simp add: missing_newer_def)
  have h5: "stat (source ''file1'' 100) = Some (file_at 100)"
    by (simp add: source_def)
  note inst = shared_destination_absent_under_extra [OF h1 h2 h3 h4 h5, where fs = "[source ''file2'' 200]"]
  from inst have r: "run mock_pf missing_newer [source ''file1'' 100, source ''file2'' 200] =
       (Some (TypeError msg_null_dest), missing_newer\<lparr>n_bufferedFiles := Some []\<rparr>)"
    by blast
  with h1 have p: "pipeline mock_pf (ArgOptions ?options)
       [source ''file1'' 100, source ''file2'' 200] = (Some (TypeError msg_null_dest), [])"
    by (simp add: pipeline_def missing_newer_def)
  have q: "pipeline mock_pf (ArgString ''missing'') [source ''file1'' 100, source ''file2'' 200] =
       (None, [source ''file1'' 100, source ''file2'' 200])"
    by (simp add: example_defs)
  from inst h1 h2 h3 h4 h5 r p q show ?thesis by simp
qed

section \<open>C8: the emitted files are a subsequence of the input\<close>

lemma subseq_snoc_both: "subseq xs ys \<Longrightarrow> subseq (xs @ [a]) (ys @ [a])"
  by (simp add: list_emb_append_mono)

lemma subseq_snoc_right: "subseq xs ys \<Longrightarrow> subseq xs (ys @ [a])"
  by (rule subseq_rev_drop_many)

lemma subseq_snoc_both2: "subseq (xs @ ys) zs \<Longrightarrow> subseq (xs @ ys @ [a]) (zs @ [a])"
  using subseq_snoc_both [of "xs @ ys" zs a] by simp

lemma subseq_append_left: "subseq (xs @ ys) zs \<Longrightarrow> subseq xs zs"
  using subseq_order.order_trans [of xs "xs @ ys" zs] by (simp add: prefix_imp_subseq)

lemma transform_emit_inv:
  assumes "emit_inv n seen" and "transform pf n (Some f) = (r, n')"
  shows "emit_inv n' (seen @ [f])"
  using assms
  by (auto simp: emit_inv_def buf_def transform_def getDestStats_def bufferPush_def push_def
      foldl_push_eq Let_def subseq_snoc_both subseq_snoc_both2 subseq_snoc_right
      split: option.splits sum.splits if_splits prod.splits bool.splits)

lemma feed_emit_inv:
  "emit_inv n seen \<Longrightarrow> feed pf n fs = (r, n') \<Longrightarrow> emit_inv n' (seen @ fs)"
proof (induction fs arbitrary: n seen)
  case Nil
  then show ?case by simp
next
  case (Cons f fs)
  obtain r1 n1 where t: "transform pf n (Some f) = (r1, n1)" by force
  from transform_emit_inv [OF Cons.prems(1) t] have i: "emit_inv n1 (seen @ [f])" .
  show ?case
  proof (cases r1)
    case None
    with t Cons.prems(2) have "feed pf n1 fs = (r, n')" by simp
    from Cons.IH [OF i this] show ?thesis by simp
  next
    case (Some e)
    with t Cons.prems(2) have "n' = n1" by simp
    with i have "emit_inv n' (seen @ [f])" by simp
    then show ?thesis
      using subseq_rev_drop_many [of "pushed n' @ buf n'" "seen @ [f]" fs]
      by (simp add: emit_inv_def)
  qed
qed

lemma run_subseq:
  assumes "n_bufferedFiles n = None" "pushed n = []"
  shows "subseq (pushed (snd (run pf n files))) files"
proof -
  obtain r n' where f: "feed pf n files = (r, n')" by force
  have "emit_inv n []" using assms by (simp add: emit_inv_def buf_def)
  from feed_emit_inv [OF this f] have "emit_inv n' files" by simp
  then have "subseq (pushed n') files"
    by (auto simp: emit_inv_def dest: subseq_append_left)
  with f show ?thesis by (cases r) (simp_all add: run_def flush_def)
qed

text \<open>
  C8. For every configuration and every input sequence, the files handed downstream are
  a subsequence of the input: the input with the files at some positions left out, each
  remaining file once and in arrival order. This holds when construction fails (nothing
  is emitted) and when a file aborts the sequence.
\<close>

theorem emitted_subsequence_of_input:
  "subseq (snd (pipeline pf arg files)) files
   \<and> (\<exists>N. snd (pipeline pf arg files) = nths files N)"
proof -
  have "subseq (snd (pipeline pf arg files)) files"
  proof (cases "newer_factory pf arg")
    case (Inl e)
    then show ?thesis by (simp add: pipeline_def)
  next
    case (Inr n)
    then obtain options where "Newer pf options = Inr n"
      by (cases arg) auto
    from Newer_fresh [OF this] have "subseq (pushed (snd (run pf n files))) files"
      by (intro run_subseq)
    with Inr show ?thesis by (auto simp: pipeline_def split: prod.splits)
  qed
  then show ?thesis by (simp add: subseq_conv_nths)
qed

theorem emitted_subsequence_witness:
  "subseq (snd (pipeline mock_pf (ArgString ''dest'')
                  [source ''file1'' 100, source ''file2'' 200, source ''file3'' 100]))
     [source ''file1'' 100, source ''file2'' 200, source ''file3'' 100]
   \<and> snd (pipeline mock_pf (ArgString ''dest'')
             [source ''file1'' 100, source ''file2'' 200, source ''file3'' 100]) =
       [source ''file1'' 100, source ''file3'' 100]"
proof -
  have "snd (pipeline mock_pf (ArgString ''dest'')
             [source ''file1'' 100, source ''file2'' 200, source ''file3'' 100]) =
       [source ''file1'' 100, source ''file3'' 100]"
    by (simp add: pipeline_def construct_defs process_defs source_def posix_join_def
        posix_normalize_def posix_extname_def)
  with emitted_subsequence_of_input [of mock_pf "ArgString ''dest''"
      "[source ''file1'' 100, source ''file2'' 200, source ''file3'' 100]"]
  show ?thesis by simp
qed

section \<open>C3: per-file destinations\<close>

lemma resolves_frame [simp]:
  "resolves pf (n\<lparr>pushed := p\<rparr>) = resolves pf n"
  by (simp add: resolves_def fun_eq_iff cong: option.case_cong sum.case_cong)

lemma staleAlone_frame [simp]:
  "staleAlone pf (n\<lparr>pushed := p\<rparr>) = staleAlone pf n"
  by (simp add: staleAlone_def fun_eq_iff cong: option.case_cong sum.case_cong)

lemma absentUnderExtra_frame [simp]:
  "absentUnderExtra pf (n\<lparr>pushed := p\<rparr>) = absentUnderExtra pf n"
  by (simp add: absentUnderExtra_def fun_eq_iff cong: option.case_cong sum.case_cong if_cong)

lemma destFileJoined_frame [simp]:
  "destFileJoined pf (n\<lparr>pushed := p\<rparr>) = destFileJoined pf n"
  by (simp add: destFileJoined_def fun_eq_iff Let_def cong: if_cong)

lemma abortsWith_frame [simp]:
  "abortsWith pf (n\<lparr>pushed := p\<rparr>) = abortsWith pf n"
  by (simp add: abortsWith_def fun_eq_iff cong: option.case_cong sum.case_cong)

lemma resolves_abortsWith: "resolves pf n f \<longleftrightarrow> abortsWith pf n f = None"
  by (auto simp: resolves_def abortsWith_def specialStat_def split: option.splits sum.splits)

lemma transform_perFile_unresolved:
  assumes "perFile n" "\<not> resolves pf n f"
  shows "transform pf n (Some f) = (abortsWith pf n f, n)"
  using assms
  by (auto simp: transform_def getDestStats_def resolves_def abortsWith_def specialStat_def
      split: option.splits sum.splits)

lemma transform_perFile_resolved:
  assumes "perFile n" "n_bufferedFiles n = None" "\<not> n_all n"
    and "resolves pf n f" "\<not> absentUnderExtra pf n f"
  shows "transform pf n (Some f) =
           (None, if staleAlone pf n f then n\<lparr>pushed := pushed n @ [f]\<rparr> else n)"
proof -
  from assms(4) obtain s probe where s: "stat f = Some s" and p: "specialStat pf n f = Inr probe"
    by (auto simp: resolves_def split: option.splits sum.splits)
  from assms(1,5) p have "n_extraStats n = None \<or> probe \<noteq> None"
    by (auto simp: absentUnderExtra_def split: option.splits)
  from isNewer_isStale [OF this]
  have "isNewer n probe s = Inr (isStale probe (n_extraStats n) (n_timestamp n) s)" .
  with assms(1-3) s p show ?thesis
    by (simp add: transform_def getDestStats_def bufferPush_def push_def staleAlone_def)
qed

lemma feed_perFile:
  assumes "perFile n" "n_bufferedFiles n = None" "\<not> n_all n"
    and "\<forall>f\<in>set files. \<not> absentUnderExtra pf n f"
  shows "snd (feed pf n files) =
           n\<lparr>pushed := pushed n @ filter (staleAlone pf n) (takeWhile (resolves pf n) files)\<rparr>
         \<and> fst (feed pf n files) =
             (case dropWhile (resolves pf n) files of [] \<Rightarrow> None | f # rest \<Rightarrow> abortsWith pf n f)"
  using assms
proof (induction files arbitrary: n)
  case Nil
  then show ?case by simp
next
  case (Cons f fs)
  show ?case
  proof (cases "resolves pf n f")
    case False
    with transform_perFile_unresolved [OF Cons.prems(1) False] show ?thesis
      by (auto simp: resolves_abortsWith)
  next
    case True
    let ?n1 = "if staleAlone pf n f then n\<lparr>pushed := pushed n @ [f]\<rparr> else n"
    have t: "transform pf n (Some f) = (None, ?n1)"
      using transform_perFile_resolved [OF Cons.prems(1-3) True] Cons.prems(4) by simp
    have "snd (feed pf ?n1 fs) =
            ?n1\<lparr>pushed := pushed ?n1 @ filter (staleAlone pf ?n1) (takeWhile (resolves pf ?n1) fs)\<rparr>
          \<and> fst (feed pf ?n1 fs) =
              (case dropWhile (resolves pf ?n1) fs of [] \<Rightarrow> None | f # rest \<Rightarrow> abortsWith pf ?n1 f)"
      using Cons.prems by (intro Cons.IH) simp_all
    with t True show ?thesis by (simp cong: list.case_cong)
  qed
qed

text \<open>
  C3, as the code has it. In per-file mode (the destination is an existing directory, or
  \<open>ext\<close> or \<open>map\<close> is set), on every sequence none of whose files has an absent
  destination while an extra watermark is set: the files are processed up to the first
  one that carries no stats or whose destination stat fails otherwise than by absence,
  and the sequence ends there with an error, the plugin error for a file without stats in
  the first case, the error \<open>fs.statSync\<close> threw in the second; each file before it is
  emitted if and only if \<open>isStale\<close> holds for that file alone; nothing is buffered and
  the latch stays open. When every file resolves, there is no error and the emitted files
  are exactly the stale ones, in order.
\<close>

theorem per_file_emits_stale_until_abort:
  assumes new: "Newer pf options = Inr n"
    and mode: "perFile n"
    and away: "\<forall>f\<in>set files. \<not> absentUnderExtra pf n f"
  shows "pushed (snd (run pf n files)) =
           filter (staleAlone pf n) (takeWhile (resolves pf n) files)
         \<and> (fst (run pf n files) = None \<longleftrightarrow> (\<forall>f\<in>set files. resolves pf n f))
         \<and> fst (run pf n files) =
             (case dropWhile (resolves pf n) files of
                [] \<Rightarrow> None
              | f # rest \<Rightarrow>
                  (case stat f of
                     None \<Rightarrow> Some (PluginError msg_no_stats)
                   | Some s \<Rightarrow>
                       (case fs_statSync pf (destFileJoined pf n f) of
                          Inr st \<Rightarrow> None
                        | Inl err \<Rightarrow> Some (JsError err))))
         \<and> ((\<forall>f\<in>set files. resolves pf n f) \<longrightarrow>
               pushed (snd (run pf n files)) = filter (staleAlone pf n) files)
         \<and> n_bufferedFiles (snd (feed pf n files)) = None
         \<and> \<not> n_all (snd (feed pf n files))"
proof -
  note fresh = Newer_fresh [OF new]
  from feed_perFile [OF mode fresh(1,2) away]
  have f: "snd (feed pf n files) =
             n\<lparr>pushed := filter (staleAlone pf n) (takeWhile (resolves pf n) files)\<rparr>"
    and e: "fst (feed pf n files) =
             (case dropWhile (resolves pf n) files of [] \<Rightarrow> None | f # rest \<Rightarrow> abortsWith pf n f)"
    using fresh(3) by simp_all
  have r: "pushed (snd (run pf n files)) = pushed (snd (feed pf n files))"
    "fst (run pf n files) = fst (feed pf n files)"
    by (auto simp: run_def flush_def split: prod.splits option.splits)
  have t: "takeWhile (resolves pf n) files = files" if "\<forall>f\<in>set files. resolves pf n f"
    using that by (simp add: takeWhile_eq_all_conv)
  have e1: "fst (feed pf n files) = None \<longleftrightarrow> (\<forall>f\<in>set files. resolves pf n f)"
  proof (cases "dropWhile (resolves pf n) files")
    case Nil
    with e show ?thesis by simp
  next
    case (Cons g rest)
    then have "\<not> resolves pf n g" "g \<in> set files"
      using hd_dropWhile [of "resolves pf n" files] set_dropWhileD [of g "resolves pf n" files]
      by auto
    with e Cons show ?thesis by (auto simp: resolves_abortsWith)
  qed
  have e2: "fst (feed pf n files) =
             (case dropWhile (resolves pf n) files of
                [] \<Rightarrow> None
              | f # rest \<Rightarrow>
                  (case stat f of
                     None \<Rightarrow> Some (PluginError msg_no_stats)
                   | Some s \<Rightarrow>
                       (case fs_statSync pf (destFileJoined pf n f) of
                          Inr st \<Rightarrow> None
                        | Inl err \<Rightarrow> Some (JsError err))))"
  proof (cases "dropWhile (resolves pf n) files")
    case Nil
    show ?thesis unfolding e Nil by simp
  next
    case (Cons g rest)
    then have "\<not> resolves pf n g"
      using hd_dropWhile [of "resolves pf n" files] by auto
    then have "abortsWith pf n g =
                 (case stat g of
                     None \<Rightarrow> Some (PluginError msg_no_stats)
                   | Some s \<Rightarrow>
                       (case fs_statSync pf (destFileJoined pf n g) of
                          Inr st \<Rightarrow> None
                        | Inl err \<Rightarrow> Some (JsError err)))"
      by (auto simp: resolves_def abortsWith_def specialStat_def split: option.splits sum.splits)
    then show ?thesis unfolding e Cons by simp
  qed
  have c1: "pushed (snd (run pf n files)) =
              filter (staleAlone pf n) (takeWhile (resolves pf n) files)"
    using f r(1) by simp
  have c4: "(\<forall>f\<in>set files. resolves pf n f) \<longrightarrow>
              pushed (snd (run pf n files)) = filter (staleAlone pf n) files"
    using c1 by (auto simp: t)
  have c5: "n_bufferedFiles (snd (feed pf n files)) = None" "\<not> n_all (snd (feed pf n files))"
    using f fresh by simp_all
  from c1 e1 e2 c4 c5 show ?thesis
    unfolding r(2) by (intro conjI) assumption+
qed

theorem per_file_witness:
  "Newer mock_pf (Some (no_options\<lparr>opt_dest := JStr ''dest''\<rparr>)) = Inr dest_newer
   \<and> perFile dest_newer
   \<and> list_all (\<lambda>f. \<not> absentUnderExtra mock_pf dest_newer f)
        [source ''file1'' 100, source ''file2'' 200, source ''file3'' 100]
   \<and> pushed (snd (run mock_pf dest_newer
                     [source ''file1'' 100, source ''file2'' 200, source ''file3'' 100])) =
       [source ''file1'' 100, source ''file3'' 100]
   \<and> fst (run mock_pf dest_newer
             [source ''file1'' 100, source ''file2'' 200, source ''file3'' 100]) = None
   \<and> list_all (\<lambda>f. \<not> absentUnderExtra mock_pf dest_newer f)
        [source ''file1'' 100, source ''locked'' 200, source ''file3'' 100]
   \<and> pushed (snd (run mock_pf dest_newer
                     [source ''file1'' 100, source ''locked'' 200, source ''file3'' 100])) =
       [source ''file1'' 100]
   \<and> fst (run mock_pf dest_newer
             [source ''file1'' 100, source ''locked'' 200, source ''file3'' 100]) =
       Some (JsError (eacces ''dest/locked''))"
proof -
  let ?files = "[source ''file1'' 100, source ''file2'' 200, source ''file3'' 100]"
  let ?locked = "[source ''file1'' 100, source ''locked'' 200, source ''file3'' 100]"
  have h1: "Newer mock_pf (Some (no_options\<lparr>opt_dest := JStr ''dest''\<rparr>)) = Inr dest_newer"
    by (simp add: construct_defs dest_newer_def)
  have h2: "perFile dest_newer"
    by (simp add: perFile_def dest_newer_def)
  have h3: "\<forall>f\<in>set ?files. \<not> absentUnderExtra mock_pf dest_newer f"
    by (simp add: absentUnderExtra_def dest_newer_def)
  have h4: "\<forall>f\<in>set ?locked. \<not> absentUnderExtra mock_pf dest_newer f"
    by (simp add: absentUnderExtra_def dest_newer_def)
  have r: "resolves mock_pf dest_newer (source ''file1'' 100)"
    "resolves mock_pf dest_newer (source ''file2'' 200)"
    "resolves mock_pf dest_newer (source ''file3'' 100)"
    "\<not> resolves mock_pf dest_newer (source ''locked'' 200)"
    by (simp_all add: resolves_def process_defs posix_defs source_def dest_newer_def
        mock_pf_def mock_fs_def enoent_def eacces_def)
  have s: "staleAlone mock_pf dest_newer (source ''file1'' 100)"
    "\<not> staleAlone mock_pf dest_newer (source ''file2'' 200)"
    "staleAlone mock_pf dest_newer (source ''file3'' 100)"
    by (simp_all add: staleAlone_def isStale_def process_defs posix_defs source_def
        dest_newer_def mock_pf_def mock_fs_def enoent_def file_at_def)
  have e: "stat (source ''locked'' 200) = Some (file_at 200)"
    "fs_statSync mock_pf (destFileJoined mock_pf dest_newer (source ''locked'' 200)) =
       Inl (eacces ''dest/locked'')"
    by (simp_all add: process_defs posix_defs source_def dest_newer_def mock_pf_def mock_fs_def)
  from per_file_emits_stale_until_abort [OF h1 h2 h3] r s
  have a: "pushed (snd (run mock_pf dest_newer ?files)) =
             [source ''file1'' 100, source ''file3'' 100]"
    "fst (run mock_pf dest_newer ?files) = None"
    by simp_all
  from per_file_emits_stale_until_abort [OF h1 h2 h4] r s e
  have b: "pushed (snd (run mock_pf dest_newer ?locked)) = [source ''file1'' 100]"
    "fst (run mock_pf dest_newer ?locked) = Some (JsError (eacces ''dest/locked''))"
    by simp_all
  from h1 h2 h3 h4 a b show ?thesis by (simp add: list_all_iff)
qed

text \<open>
  C3 as stated fails: with the directory \<open>dest\<close>, the destination of \<open>file1\<close> is absent,
  so \<open>isStale\<close> holds for it alone, and alone it is emitted; behind \<open>locked\<close>, whose
  destination cannot be read, it is not: the sequence ended there.
\<close>

theorem per_file_counterexample:
  "newer_factory mock_pf (ArgString ''dest'') = Inr dest_newer
   \<and> perFile dest_newer
   \<and> staleAlone mock_pf dest_newer (source ''file1'' 100)
   \<and> snd (pipeline mock_pf (ArgString ''dest'') [source ''file1'' 100]) = [source ''file1'' 100]
   \<and> snd (pipeline mock_pf (ArgString ''dest'') [source ''locked'' 200, source ''file1'' 100]) = []"
proof -
  have 1: "newer_factory mock_pf (ArgString ''dest'') = Inr dest_newer"
    by (simp add: construct_defs dest_newer_def)
  have 2: "perFile dest_newer"
    by (simp add: perFile_def dest_newer_def)
  have 3: "staleAlone mock_pf dest_newer (source ''file1'' 100)"
    by (simp add: staleAlone_def isStale_def process_defs posix_defs source_def dest_newer_def
        mock_pf_def mock_fs_def enoent_def)
  have 4: "run mock_pf dest_newer [source ''file1'' 100] =
             (None, dest_newer\<lparr>pushed := [source ''file1'' 100]\<rparr>)"
    by (simp add: process_defs posix_defs source_def dest_newer_def mock_pf_def mock_fs_def
        enoent_def)
  have 5: "run mock_pf dest_newer [source ''locked'' 200, source ''file1'' 100] =
             (Some (JsError (eacces ''dest/locked'')), dest_newer)"
    by (simp add: process_defs posix_defs source_def dest_newer_def mock_pf_def mock_fs_def
        eacces_def)
  from 1 have 6: "Newer mock_pf (Some \<lparr>opt_dest = JStr ''dest'', opt_ext = JUndefined,
      opt_map = JUndefined, opt_extra = JUndefined, opt_ctime = JUndefined\<rparr>) = Inr dest_newer"
    by simp
  have "snd (pipeline mock_pf (ArgString ''dest'') [source ''file1'' 100]) = [source ''file1'' 100]"
    "snd (pipeline mock_pf (ArgString ''dest'') [source ''locked'' 200, source ''file1'' 100]) = []"
    by (simp_all add: pipeline_def 6 4 5) (simp add: dest_newer_def)
  with 1 2 3 show ?thesis by simp
qed

section \<open>C2: an absent destination under an extra watermark\<close>

lemma transform_absent_with_extra:
  assumes "stat f = Some s" "n_extraStats n = Some x"
    and "if perFile n then specialStat pf n f = Inr None else n_destStats n = None"
  shows "fst (transform pf n (Some f)) = Some (TypeError msg_null_dest)"
    and "pushed (snd (transform pf n (Some f))) = pushed n"
  using assms
  by (auto simp: transform_def getDestStats_def isNewer_def Let_def split: if_splits)

text \<open>
  The other variants in the repository compute \<open>newer\<close> inline, and they too compare
  the watermark with the timestamp of a destination that is \<open>null\<close>.
\<close>

lemma inline_newer_raises:
  "newerQ_of ts None (Some x) src = Inl (TypeError msg_null_dest)"
  by (simp add: newerQ_of_def)

text \<open>
  C2 does not hold of the code. With the extra file \<open>imported\<close> giving a watermark, a
  source file whose destination is absent (\<open>dest/file1\<close> in the directory \<open>dest\<close>, or
  the missing file \<open>missing\<close> as shared destination) is not emitted: \<open>_isNewer\<close> reads
  the timestamp of the absent destination before it tests for absence, and the
  \<open>TypeError\<close> ends the sequence. Without the extra file the same source file is
  emitted.
\<close>

theorem absent_destination_with_extra_raises:
  "pipeline mock_pf
     (ArgOptions (Some (no_options\<lparr>opt_dest := JStr ''dest'', opt_extra := JStr ''imported''\<rparr>)))
     [source ''file1'' 100] = (Some (TypeError msg_null_dest), [])
   \<and> pipeline mock_pf
     (ArgOptions (Some (no_options\<lparr>opt_dest := JStr ''missing'', opt_extra := JStr ''imported''\<rparr>)))
     [source ''file1'' 100] = (Some (TypeError msg_null_dest), [])
   \<and> pipeline mock_pf (ArgString ''dest'') [source ''file1'' 100] = (None, [source ''file1'' 100])
   \<and> pipeline mock_pf (ArgString ''missing'') [source ''file1'' 100] = (None, [source ''file1'' 100])"
  by (simp add: example_defs)

section \<open>C7: the extra watermark\<close>

lemma stat_each_ok:
  "map (fs_statSync pf) files = map Inr sts \<Longrightarrow> stat_each pf files = Inr sts"
proof (induction files arbitrary: sts)
  case Nil
  then show ?case by simp
next
  case (Cons p ps)
  then obtain s rest where "sts = s # rest" "fs_statSync pf p = Inr s"
    "map (fs_statSync pf) ps = map Inr rest"
    by (cases sts) auto
  with Cons.IH [of rest] show ?case by simp
qed

lemma stat_each_Inr:
  "stat_each pf files = Inr sts \<Longrightarrow> map (fs_statSync pf) files = map Inr sts"
  by (induction files arbitrary: sts) (auto split: sum.splits)

lemma stat_each_fail:
  assumes "\<forall>q\<in>set ok. \<exists>s. fs_statSync pf q = Inr s" "fs_statSync pf p = Inl e"
  shows "stat_each pf (ok @ p # rest) = Inl (extra_stat_error e)"
  using assms by (induction ok) auto

lemma firstMaximum_snoc:
  assumes "firstMaximum ts xs i"
  shows "firstMaximum ts (xs @ [s])
           (if stamp ts s > stamp ts (xs ! i) then length xs else i)"
  using assms
  by (auto simp: firstMaximum_def nth_append list_all_iff dest: in_set_takeD)

lemma latest_from_firstMaximum:
  assumes "firstMaximum ts seen i" "seen ! i = cur"
  shows "\<exists>k. firstMaximum ts (seen @ ss) k \<and> (seen @ ss) ! k = latest_from ts cur ss"
  using assms
proof (induction ss arbitrary: seen i cur)
  case Nil
  then show ?case by auto
next
  case (Cons s ss)
  let ?i' = "if stamp ts s > stamp ts (seen ! i) then length seen else i"
  let ?cur' = "if stamp ts s > stamp ts cur then s else cur"
  have m: "firstMaximum ts (seen @ [s]) ?i'"
    using firstMaximum_snoc [OF Cons.prems(1)] .
  have "i < length seen" using Cons.prems(1) by (simp add: firstMaximum_def)
  then have c: "(seen @ [s]) ! ?i' = ?cur'"
    using Cons.prems(2) by (simp add: nth_append)
  from Cons.IH [OF m c] show ?case by simp
qed

lemma latestStat_firstMaximum:
  assumes "sts \<noteq> []"
  shows "\<exists>i. firstMaximum ts sts i \<and> latestStat ts sts = Some (sts ! i)"
proof -
  from assms obtain s ss where sts: "sts = s # ss" by (cases sts) auto
  have "firstMaximum ts [s] 0" by (simp add: firstMaximum_def)
  from latest_from_firstMaximum [OF this, of s ss] sts show ?thesis by auto
qed

lemma latestStat_None [simp]: "latestStat ts sts = None \<longleftrightarrow> sts = []"
  by (cases sts) simp_all

text \<open>The constructor on options that passed the checks.\<close>

lemma Newer_checked:
  assumes "checkOptions options = Inr opts"
  shows "Newer pf options =
           (case destStatOf pf opts of
              Inl e \<Rightarrow> Inl e
            | Inr destStats \<Rightarrow>
                (let n = \<lparr>n_dest = js_string (opt_dest opts),
                          n_ext = js_string (opt_ext opts),
                          n_map = js_function (opt_map opts),
                          n_timestamp = (if truthy (opt_ctime opts) then Ctime else Mtime),
                          n_destStats = destStats,
                          n_bufferedFiles = None,
                          n_all = False,
                          n_extraStats = None,
                          pushed = []\<rparr>
                 in if truthy (opt_extra opts) then getExtraStats pf n opts else Inr n))"
  using assms by (simp add: Newer_def destStatOf_def)

text \<open>\<open>_getExtraStats\<close> on any instance, once the patterns are expanded.\<close>

lemma getExtraStats_first_maximum:
  assumes globbed: "glob_each pf (patterns (opt_extra opts)) = Inr extraFiles"
  shows "map (fs_statSync pf) (concat extraFiles) = map Inr sts \<Longrightarrow> sts \<noteq> [] \<Longrightarrow>
           \<exists>i. firstMaximum (n_timestamp n) sts i
              \<and> getExtraStats pf n opts = Inr (n\<lparr>n_extraStats := Some (sts ! i)\<rparr>)"
    and "concat extraFiles = ok @ p # rest \<Longrightarrow> \<forall>q\<in>set ok. \<exists>s. fs_statSync pf q = Inr s \<Longrightarrow>
         fs_statSync pf p = Inl e \<Longrightarrow>
           getExtraStats pf n opts =
             Inl (PluginError
                   (if nonempty (err_path e)
                    then ''Failed to read stats for an extra file: '' @ the (err_path e)
                    else ''Failed to stat extra files; unknown error: '' @ err_text e))"
proof -
  assume a: "map (fs_statSync pf) (concat extraFiles) = map Inr sts" "sts \<noteq> []"
  then have s: "stat_each pf (concat extraFiles) = Inr sts" by (simp add: stat_each_ok)
  from a latestStat_firstMaximum [of sts "n_timestamp n"]
  obtain i where "firstMaximum (n_timestamp n) sts i" "latestStat (n_timestamp n) sts = Some (sts ! i)"
    by auto
  with s globbed
  show "\<exists>i. firstMaximum (n_timestamp n) sts i
           \<and> getExtraStats pf n opts = Inr (n\<lparr>n_extraStats := Some (sts ! i)\<rparr>)"
    by (auto simp: getExtraStats_def)
next
  assume a: "concat extraFiles = ok @ p # rest" "\<forall>q\<in>set ok. \<exists>s. fs_statSync pf q = Inr s"
    "fs_statSync pf p = Inl e"
  then have "stat_each pf (concat extraFiles) = Inl (extra_stat_error e)"
    using stat_each_fail [of ok pf p e rest] by simp
  with globbed
  show "getExtraStats pf n opts =
          Inl (PluginError
                (if nonempty (err_path e)
                 then ''Failed to read stats for an extra file: '' @ the (err_path e)
                 else ''Failed to stat extra files; unknown error: '' @ err_text e))"
    by (simp add: getExtraStats_def extra_stat_error_def)
qed

text \<open>
  C7. When construction reaches the stats of the extra files (the options pass the
  checks, the destination stat does not throw, no pattern makes \<open>glob.sync\<close> throw):
  if every file the patterns expand to is stat'ed successfully and there is at least
  one, construction succeeds and the watermark of the instance is the record at the first
  maximum of the selected timestamp field among the records in the order of the files,
  the field being \<open>ctime\<close> when the option \<open>ctime\<close> is truthy and \<open>mtime\<close> otherwise; if a
  file cannot be stat'ed, the first such file makes construction throw the plugin error
  that names \<open>error.path\<close> when the error has one, and the unknown-error message with the
  error's text otherwise.
\<close>

theorem extra_watermark_first_maximum:
  assumes checked: "checkOptions (Some cfg) = Inr opts"
    and extra: "truthy (opt_extra opts)"
    and dest: "destStatOf pf opts = Inr destStats"
    and globbed: "glob_each pf (patterns (opt_extra opts)) = Inr extraFiles"
  shows "(\<forall>sts. map (fs_statSync pf) (concat extraFiles) = map Inr sts \<and> sts \<noteq> [] \<longrightarrow>
            (\<exists>i m. firstMaximum (if truthy (opt_ctime cfg) then Ctime else Mtime) sts i
                \<and> Newer pf (Some cfg) = Inr m
                \<and> n_timestamp m = (if truthy (opt_ctime cfg) then Ctime else Mtime)
                \<and> n_extraStats m = Some (sts ! i)))
       \<and> (\<forall>ok p rest e.
            concat extraFiles = ok @ p # rest
            \<and> (\<forall>q\<in>set ok. \<exists>s. fs_statSync pf q = Inr s)
            \<and> fs_statSync pf p = Inl e \<longrightarrow>
              Newer pf (Some cfg) =
                Inl (PluginError
                      (if nonempty (err_path e)
                       then ''Failed to read stats for an extra file: '' @ the (err_path e)
                       else ''Failed to stat extra files; unknown error: '' @ err_text e)))"
proof -
  let ?ts = "if truthy (opt_ctime cfg) then Ctime else Mtime"
  let ?n = "\<lparr>n_dest = js_string (opt_dest opts), n_ext = js_string (opt_ext opts),
      n_map = js_function (opt_map opts),
      n_timestamp = (if truthy (opt_ctime opts) then Ctime else Mtime),
      n_destStats = destStats, n_bufferedFiles = None, n_all = False,
      n_extraStats = None, pushed = []\<rparr>"
  have ct: "opt_ctime opts = opt_ctime cfg"
    using checked by (auto simp: checkOptions_def split: if_splits)
  have new: "Newer pf (Some cfg) = getExtraStats pf ?n opts"
    using extra dest by (simp add: Newer_checked [OF checked] Let_def)
  show ?thesis
  proof (intro conjI allI impI)
    fix sts
    assume a: "map (fs_statSync pf) (concat extraFiles) = map Inr sts \<and> sts \<noteq> []"
    with getExtraStats_first_maximum(1) [OF globbed, of sts ?n]
    obtain i where i: "firstMaximum (n_timestamp ?n) sts i"
      "getExtraStats pf ?n opts = Inr (?n\<lparr>n_extraStats := Some (sts ! i)\<rparr>)"
      by blast
    from i(1) have "firstMaximum ?ts sts i" by (simp add: ct)
    moreover from i(2) new have "Newer pf (Some cfg) = Inr (?n\<lparr>n_extraStats := Some (sts ! i)\<rparr>)"
      by simp
    ultimately
    show "\<exists>i m. firstMaximum ?ts sts i \<and> Newer pf (Some cfg) = Inr m
            \<and> n_timestamp m = ?ts \<and> n_extraStats m = Some (sts ! i)"
      by (auto simp: ct)
  next
    fix ok p rest e
    assume a: "concat extraFiles = ok @ p # rest
            \<and> (\<forall>q\<in>set ok. \<exists>s. fs_statSync pf q = Inr s)
            \<and> fs_statSync pf p = Inl e"
    with getExtraStats_first_maximum(2) [OF globbed, of ok p rest e ?n] new
    show "Newer pf (Some cfg) =
                Inl (PluginError
                      (if nonempty (err_path e)
                       then ''Failed to read stats for an extra file: '' @ the (err_path e)
                       else ''Failed to stat extra files; unknown error: '' @ err_text e))"
      by simp
  qed
qed

theorem extra_watermark_witness:
  "checkOptions (Some (dest_with_extra (JArr [JStr ''dest/output'', JStr ''imported'', JStr ''config'']))) =
     Inr (dest_with_extra (JArr [JStr ''dest/output'', JStr ''imported'', JStr ''config'']))
   \<and> glob_each mock_pf
       (patterns (opt_extra (dest_with_extra (JArr [JStr ''dest/output'', JStr ''imported'', JStr ''config'']))))
       = Inr [[''dest/output''], [''imported''], [''config'']]
   \<and> map (fs_statSync mock_pf) (concat [[''dest/output''], [''imported''], [''config'']]) =
       map Inr [file_at 150, file_at 300, \<lparr>mtime = 300, ctime = 20, isDirectory = False\<rparr>]
   \<and> firstMaximum Mtime [file_at 150, file_at 300, \<lparr>mtime = 300, ctime = 20, isDirectory = False\<rparr>] 1
   \<and> (\<exists>m. Newer mock_pf
              (Some (dest_with_extra (JArr [JStr ''dest/output'', JStr ''imported'', JStr ''config'']))) =
              Inr m
          \<and> n_timestamp m = Mtime \<and> n_extraStats m = Some (file_at 300))
   \<and> Newer mock_pf (Some (dest_with_extra (JArr [JStr ''config'', JStr ''dest/output'']))) =
       Inr (dest_newer\<lparr>n_extraStats := Some \<lparr>mtime = 300, ctime = 20, isDirectory = False\<rparr>\<rparr>)
   \<and> Newer mock_pf
       (Some ((dest_with_extra (JArr [JStr ''config'', JStr ''dest/output'']))\<lparr>opt_ctime := JBool True\<rparr>)) =
       Inr (dest_newer\<lparr>n_timestamp := Ctime, n_extraStats := Some (file_at 150)\<rparr>)
   \<and> glob_each link_pf (patterns (opt_extra (dest_with_extra (JArr [JStr ''gone''])))) = Inr [[''gone'']]
   \<and> fs_statSync link_pf ''gone'' = Inl (enoent ''gone'')
   \<and> Newer link_pf (Some (dest_with_extra (JArr [JStr ''gone'']))) =
       Inl (PluginError ''Failed to read stats for an extra file: gone'')"
proof -
  let ?cfg = "dest_with_extra (JArr [JStr ''dest/output'', JStr ''imported'', JStr ''config''])"
  let ?sts = "[file_at 150, file_at 300, \<lparr>mtime = 300, ctime = 20, isDirectory = False\<rparr>]"
  let ?dir = "\<lparr>mtime = 10, ctime = 10, isDirectory = True\<rparr>"
  have c: "checkOptions (Some ?cfg) = Inr ?cfg"
    by (simp add: checkOptions_def dest_with_extra_def no_options_def)
  have x: "truthy (opt_extra ?cfg)"
    by (simp add: dest_with_extra_def)
  have d: "destStatOf mock_pf ?cfg = Inr (Some ?dir)"
    by (simp add: destStatOf_def statSync_noentry_def node_noentry_def dest_with_extra_def
        no_options_def mock_pf_def mock_fs_def)
  have g: "glob_each mock_pf (patterns (opt_extra ?cfg)) =
             Inr [[''dest/output''], [''imported''], [''config'']]"
    by (simp add: dest_with_extra_def no_options_def mock_pf_def literal_glob_def mock_fs_def)
  have m: "map (fs_statSync mock_pf) (concat [[''dest/output''], [''imported''], [''config'']]) =
             map Inr ?sts"
    by (simp add: mock_pf_def mock_fs_def)
  have f: "firstMaximum Mtime ?sts 1"
    by (simp add: firstMaximum_def file_at_def)
  have ct: "\<not> truthy (opt_ctime ?cfg)"
    by (simp add: dest_with_extra_def no_options_def)
  from extra_watermark_first_maximum [OF c x d g]
  have "\<forall>sts. map (fs_statSync mock_pf) (concat [[''dest/output''], [''imported''], [''config'']]) =
                 map Inr sts \<and> sts \<noteq> [] \<longrightarrow>
            (\<exists>i m. firstMaximum (if truthy (opt_ctime ?cfg) then Ctime else Mtime) sts i
                \<and> Newer mock_pf (Some ?cfg) = Inr m
                \<and> n_timestamp m = (if truthy (opt_ctime ?cfg) then Ctime else Mtime)
                \<and> n_extraStats m = Some (sts ! i))"
    by (rule conjunct1)
  from this [rule_format, of ?sts] m ct
  obtain i n where i: "firstMaximum Mtime ?sts i" "Newer mock_pf (Some ?cfg) = Inr n"
    "n_timestamp n = Mtime" "n_extraStats n = Some (?sts ! i)"
    by auto
  have "i = 1"
  proof -
    from i(1) have "i < 3" by (simp add: firstMaximum_def)
    then consider "i = 0" | "i = 1" | "i = 2" by linarith
    then show ?thesis
      using i(1) by cases (simp_all add: firstMaximum_def file_at_def)
  qed
  with i have w: "\<exists>m. Newer mock_pf (Some ?cfg) = Inr m
          \<and> n_timestamp m = Mtime \<and> n_extraStats m = Some (file_at 300)"
    by simp
  have k: "Newer mock_pf (Some (dest_with_extra (JArr [JStr ''config'', JStr ''dest/output'']))) =
       Inr (dest_newer\<lparr>n_extraStats := Some \<lparr>mtime = 300, ctime = 20, isDirectory = False\<rparr>\<rparr>)"
    "Newer mock_pf
       (Some ((dest_with_extra (JArr [JStr ''config'', JStr ''dest/output'']))\<lparr>opt_ctime := JBool True\<rparr>)) =
       Inr (dest_newer\<lparr>n_timestamp := Ctime, n_extraStats := Some (file_at 150)\<rparr>)"
    by (simp_all add: construct_defs dest_with_extra_def dest_newer_def)
  let ?gone = "dest_with_extra (JArr [JStr ''gone''])"
  have c': "checkOptions (Some ?gone) = Inr ?gone"
    by (simp add: checkOptions_def dest_with_extra_def no_options_def)
  have x': "truthy (opt_extra ?gone)"
    by (simp add: dest_with_extra_def)
  have d': "destStatOf link_pf ?gone = Inr (Some ?dir)"
    by (simp add: destStatOf_def statSync_noentry_def node_noentry_def dest_with_extra_def
        no_options_def link_pf_def mock_fs_def)
  have g': "glob_each link_pf (patterns (opt_extra ?gone)) = Inr [[''gone'']]"
    by (simp add: dest_with_extra_def no_options_def link_pf_def)
  have e: "fs_statSync link_pf ''gone'' = Inl (enoent ''gone'')"
    by (simp add: link_pf_def mock_fs_def)
  from extra_watermark_first_maximum [OF c' x' d' g']
  have "\<forall>ok p rest e.
            concat [[''gone'']] = ok @ p # rest
            \<and> (\<forall>q\<in>set ok. \<exists>s. fs_statSync link_pf q = Inr s)
            \<and> fs_statSync link_pf p = Inl e \<longrightarrow>
              Newer link_pf (Some ?gone) =
                Inl (PluginError
                      (if nonempty (err_path e)
                       then ''Failed to read stats for an extra file: '' @ the (err_path e)
                       else ''Failed to stat extra files; unknown error: '' @ err_text e))"
    by (rule conjunct2)
  from this [rule_format, of "[]" "''gone''" "[]" "enoent ''gone''"] e
  have b: "Newer link_pf (Some ?gone) =
             Inl (PluginError ''Failed to read stats for an extra file: gone'')"
    by (simp add: enoent_def)
  from c g m f w k g' e b show ?thesis by simp
qed

section \<open>C6: extras that match no file\<close>

lemma stat_each_isl:
  "isl (stat_each pf files) \<longleftrightarrow> (\<exists>p\<in>set files. isl (fs_statSync pf p))"
  by (induction files) (auto split: sum.splits)

lemma checkOptions_without_extra:
  assumes "checkOptions (Some cfg) = Inr opts"
  shows "checkOptions (Some (cfg\<lparr>opt_extra := JUndefined\<rparr>)) = Inr (opts\<lparr>opt_extra := JUndefined\<rparr>)"
  using assms by (auto simp: checkOptions_def split: if_splits)

lemma Newer_no_match:
  assumes checked: "checkOptions (Some cfg) = Inr opts"
    and extra: "truthy (opt_extra opts)"
    and globbed: "glob_each pf (patterns (opt_extra opts)) = Inr extraFiles"
    and none: "concat extraFiles = []"
  shows "Newer pf (Some cfg) = Newer pf (Some (cfg\<lparr>opt_extra := JUndefined\<rparr>))"
proof -
  have s: "stat_each pf (concat extraFiles) = Inr []"
    unfolding none by simp
  have d: "destStatOf pf (opts\<lparr>opt_extra := JUndefined\<rparr>) = destStatOf pf opts"
    by (simp add: destStatOf_def)
  show ?thesis
    unfolding Newer_checked [OF checked] Newer_checked [OF checkOptions_without_extra [OF checked]] d
    using extra globbed s
    by (simp add: getExtraStats_def Let_def split: sum.splits)
qed

text \<open>
  C6, as the code has it. With \<open>extra\<close> set, construction completes unless the
  destination stat fails, a pattern makes \<open>glob.sync\<close> throw, or a matched file cannot be
  stat'ed. When it completes, the watermark is set if and only if the patterns matched at
  least one file: with no match, \<open>_extraStats\<close> is \<open>undefined\<close> and no error is raised;
  construction then gives what it gives for the same options without \<open>extra\<close>, and
  every sequence of files is processed in the same way.
\<close>

theorem extra_watermark_iff_matched:
  assumes checked: "checkOptions options = Inr opts"
    and extra: "truthy (opt_extra opts)"
  shows "(\<forall>n. Newer pf options = Inr n \<longrightarrow>
            (\<exists>extraFiles. glob_each pf (patterns (opt_extra opts)) = Inr extraFiles
               \<and> (n_extraStats n \<noteq> None \<longleftrightarrow> concat extraFiles \<noteq> [])))
       \<and> (\<forall>extraFiles destStats.
            glob_each pf (patterns (opt_extra opts)) = Inr extraFiles
            \<and> concat extraFiles = []
            \<and> destStatOf pf opts = Inr destStats \<longrightarrow>
              (\<exists>n. Newer pf options = Inr n \<and> n_extraStats n = None))
       \<and> (isl (Newer pf options) \<longleftrightarrow>
            isl (destStatOf pf opts)
            \<or> isl (glob_each pf (patterns (opt_extra opts)))
            \<or> (\<exists>extraFiles. glob_each pf (patterns (opt_extra opts)) = Inr extraFiles
                  \<and> (\<exists>p\<in>set (concat extraFiles). isl (fs_statSync pf p))))
       \<and> (\<forall>cfg extraFiles.
            options = Some cfg
            \<and> glob_each pf (patterns (opt_extra opts)) = Inr extraFiles
            \<and> concat extraFiles = [] \<longrightarrow>
              Newer pf options = Newer pf (Some (cfg\<lparr>opt_extra := JUndefined\<rparr>))
              \<and> (\<forall>files. pipeline pf (ArgOptions options) files =
                            pipeline pf (ArgOptions (Some (cfg\<lparr>opt_extra := JUndefined\<rparr>))) files))"
proof (intro conjI allI impI)
  fix n
  assume n: "Newer pf options = Inr n"
  then obtain extraFiles sts where g: "glob_each pf (patterns (opt_extra opts)) = Inr extraFiles"
    and s: "stat_each pf (concat extraFiles) = Inr sts"
    and w: "n_extraStats n = latestStat (n_timestamp n) sts"
    using extra
    by (auto simp: Newer_checked [OF checked] getExtraStats_def Let_def split: sum.splits)
  from stat_each_Inr [OF s] have "length (concat extraFiles) = length sts"
    by (metis length_map)
  then have "sts = [] \<longleftrightarrow> concat extraFiles = []" by (metis length_0_conv)
  with g w
  show "\<exists>extraFiles. glob_each pf (patterns (opt_extra opts)) = Inr extraFiles
          \<and> (n_extraStats n \<noteq> None \<longleftrightarrow> concat extraFiles \<noteq> [])"
    by simp
next
  fix extraFiles destStats
  assume "glob_each pf (patterns (opt_extra opts)) = Inr extraFiles
            \<and> concat extraFiles = []
            \<and> destStatOf pf opts = Inr destStats"
  then have g: "glob_each pf (patterns (opt_extra opts)) = Inr extraFiles"
    and d: "destStatOf pf opts = Inr destStats"
    and c: "concat extraFiles = []"
    by blast+
  have "stat_each pf (concat extraFiles) = Inr []"
    unfolding c by simp
  with extra g d show "\<exists>n. Newer pf options = Inr n \<and> n_extraStats n = None"
    by (simp add: Newer_checked [OF checked] getExtraStats_def Let_def)
next
  show "isl (Newer pf options) \<longleftrightarrow>
          isl (destStatOf pf opts)
          \<or> isl (glob_each pf (patterns (opt_extra opts)))
          \<or> (\<exists>extraFiles. glob_each pf (patterns (opt_extra opts)) = Inr extraFiles
                \<and> (\<exists>p\<in>set (concat extraFiles). isl (fs_statSync pf p)))"
  proof (cases "destStatOf pf opts")
    case (Inl e)
    then show ?thesis by (simp add: Newer_checked [OF checked])
  next
    case d: (Inr destStats)
    show ?thesis
    proof (cases "glob_each pf (patterns (opt_extra opts))")
      case (Inl e)
      with d extra show ?thesis
        by (simp add: Newer_checked [OF checked] getExtraStats_def Let_def)
    next
      case g: (Inr extraFiles)
      have "isl (Newer pf options) = isl (stat_each pf (concat extraFiles))"
        using d g extra
        by (simp add: Newer_checked [OF checked] getExtraStats_def Let_def split: sum.splits)
      also have "\<dots> = (\<exists>p\<in>set (concat extraFiles). isl (fs_statSync pf p))"
        by (rule stat_each_isl)
      finally show ?thesis using d g by simp
    qed
  qed
next
  fix cfg extraFiles
  assume a: "options = Some cfg
            \<and> glob_each pf (patterns (opt_extra opts)) = Inr extraFiles
            \<and> concat extraFiles = []"
  then have g: "glob_each pf (patterns (opt_extra opts)) = Inr extraFiles"
    and c: "concat extraFiles = []"
    by blast+
  from a checked have "checkOptions (Some cfg) = Inr opts" by simp
  from Newer_no_match [OF this extra g c] a
  show same: "Newer pf options = Newer pf (Some (cfg\<lparr>opt_extra := JUndefined\<rparr>))"
    by simp
  fix files
  from same
  show "pipeline pf (ArgOptions options) files =
          pipeline pf (ArgOptions (Some (cfg\<lparr>opt_extra := JUndefined\<rparr>))) files"
    by (simp add: pipeline_def)
qed

theorem extra_watermark_iff_matched_witness:
  "checkOptions (Some (dest_with_extra (JStr ''imported''))) =
     Inr (dest_with_extra (JArr [JStr ''imported'']))
   \<and> truthy (opt_extra (dest_with_extra (JArr [JStr ''imported''])))
   \<and> Newer mock_pf (Some (dest_with_extra (JStr ''imported''))) =
       Inr (dest_newer\<lparr>n_extraStats := Some (file_at 300)\<rparr>)
   \<and> (\<exists>extraFiles.
         glob_each mock_pf (patterns (opt_extra (dest_with_extra (JArr [JStr ''imported''])))) =
           Inr extraFiles
         \<and> concat extraFiles \<noteq> [])
   \<and> checkOptions (Some (dest_with_extra (JStr ''nomatch''))) =
       Inr (dest_with_extra (JArr [JStr ''nomatch'']))
   \<and> glob_each mock_pf (patterns (opt_extra (dest_with_extra (JArr [JStr ''nomatch''])))) = Inr [[]]
   \<and> Newer mock_pf (Some (dest_with_extra (JStr ''nomatch''))) =
       Newer mock_pf (Some (no_options\<lparr>opt_dest := JStr ''dest''\<rparr>))
   \<and> pipeline mock_pf (ArgOptions (Some (dest_with_extra (JStr ''nomatch''))))
        [source ''file1'' 100, source ''file2'' 200] = (None, [source ''file1'' 100])"
proof -
  have c: "checkOptions (Some (dest_with_extra (JStr ''imported''))) =
             Inr (dest_with_extra (JArr [JStr ''imported'']))"
    by (simp add: checkOptions_def dest_with_extra_def no_options_def)
  have t: "truthy (opt_extra (dest_with_extra (JArr [JStr ''imported''])))"
    by (simp add: dest_with_extra_def)
  have n: "Newer mock_pf (Some (dest_with_extra (JStr ''imported''))) =
             Inr (dest_newer\<lparr>n_extraStats := Some (file_at 300)\<rparr>)"
    by (simp add: construct_defs dest_with_extra_def dest_newer_def)
  from extra_watermark_iff_matched [OF c t, of mock_pf] n
  have m: "\<exists>extraFiles.
         glob_each mock_pf (patterns (opt_extra (dest_with_extra (JArr [JStr ''imported''])))) =
           Inr extraFiles
         \<and> concat extraFiles \<noteq> []"
    by simp
  have c': "checkOptions (Some (dest_with_extra (JStr ''nomatch''))) =
             Inr (dest_with_extra (JArr [JStr ''nomatch'']))"
    by (simp add: checkOptions_def dest_with_extra_def no_options_def)
  have t': "truthy (opt_extra (dest_with_extra (JArr [JStr ''nomatch''])))"
    by (simp add: dest_with_extra_def)
  have g': "glob_each mock_pf (patterns (opt_extra (dest_with_extra (JArr [JStr ''nomatch''])))) =
              Inr [[]]"
    by (simp add: dest_with_extra_def mock_pf_def literal_glob_def mock_fs_def)
  have u: "(dest_with_extra (JStr ''nomatch''))\<lparr>opt_extra := JUndefined\<rparr> =
             no_options\<lparr>opt_dest := JStr ''dest''\<rparr>"
    by (simp add: dest_with_extra_def no_options_def)
  from extra_watermark_iff_matched [OF c' t', of mock_pf]
  have "\<forall>cfg extraFiles.
            Some (dest_with_extra (JStr ''nomatch'')) = Some cfg
            \<and> glob_each mock_pf (patterns (opt_extra (dest_with_extra (JArr [JStr ''nomatch''])))) =
                Inr extraFiles
            \<and> concat extraFiles = [] \<longrightarrow>
              Newer mock_pf (Some (dest_with_extra (JStr ''nomatch''))) =
                Newer mock_pf (Some (cfg\<lparr>opt_extra := JUndefined\<rparr>))
              \<and> (\<forall>files. pipeline mock_pf (ArgOptions (Some (dest_with_extra (JStr ''nomatch'')))) files =
                            pipeline mock_pf (ArgOptions (Some (cfg\<lparr>opt_extra := JUndefined\<rparr>))) files)"
    by (rule conjunct2 [THEN conjunct2, THEN conjunct2])
  from this [rule_format, of "dest_with_extra (JStr ''nomatch'')" "[[]]"] g' u
  have z: "Newer mock_pf (Some (dest_with_extra (JStr ''nomatch''))) =
             Newer mock_pf (Some (no_options\<lparr>opt_dest := JStr ''dest''\<rparr>))"
    and zp: "pipeline mock_pf (ArgOptions (Some (dest_with_extra (JStr ''nomatch''))))
               [source ''file1'' 100, source ''file2'' 200] =
             pipeline mock_pf (ArgOptions (Some (no_options\<lparr>opt_dest := JStr ''dest''\<rparr>)))
               [source ''file1'' 100, source ''file2'' 200]"
    by simp_all
  have "pipeline mock_pf (ArgOptions (Some (no_options\<lparr>opt_dest := JStr ''dest''\<rparr>)))
               [source ''file1'' 100, source ''file2'' 200] = (None, [source ''file1'' 100])"
    by (simp add: example_defs)
  with zp have p: "pipeline mock_pf (ArgOptions (Some (dest_with_extra (JStr ''nomatch''))))
        [source ''file1'' 100, source ''file2'' 200] = (None, [source ''file1'' 100])"
    by simp
  from c t n m c' g' z p show ?thesis by simp
qed

text \<open>
  C6 as stated fails: the pattern \<open>nomatch\<close> matches no file, and construction completes
  with no watermark and no error.
\<close>

theorem extra_without_match_counterexample:
  "truthy (opt_extra (dest_with_extra (JStr ''nomatch'')))
   \<and> Newer mock_pf (Some (dest_with_extra (JStr ''nomatch''))) = Inr dest_newer
   \<and> n_extraStats dest_newer = None"
  by (simp add: construct_defs dest_with_extra_def dest_newer_def)

section \<open>C5: which options are rejected\<close>

lemma checkOptions_error_passes:
  "checkOptions options = Inl e \<Longrightarrow> Newer pf options = Inl e"
  by (simp add: Newer_def)

text \<open>
  C5, as the code has it. \<open>_checkOptions\<close> throws if and only if the options are
  missing, or \<open>dest\<close> is truthy and not a string, or \<open>ext\<close> is truthy and not a string,
  or \<open>map\<close> is truthy and not a function, or neither \<open>dest\<close> nor \<open>map\<close> is truthy, or
  \<open>extra\<close> is truthy and neither a string nor an array (the elements of an array are not
  looked at). What it throws is a plugin error with one of its six messages, and it is
  the outcome of construction. Otherwise the options pass, a truthy string \<open>extra\<close>
  becoming a one-element array, and construction succeeds when moreover the destination
  stat does not fail and no extras are configured.
\<close>

theorem checkOptions_rejects_iff:
  "(isl (checkOptions options) \<longleftrightarrow>
      (case options of
         None \<Rightarrow> True
       | Some cfg \<Rightarrow>
           (truthy (opt_dest cfg) \<and> \<not> is_string (opt_dest cfg))
           \<or> (truthy (opt_ext cfg) \<and> \<not> is_string (opt_ext cfg))
           \<or> (truthy (opt_map cfg) \<and> \<not> is_function (opt_map cfg))
           \<or> (\<not> truthy (opt_dest cfg) \<and> \<not> truthy (opt_map cfg))
           \<or> (truthy (opt_extra cfg) \<and> \<not> is_string (opt_extra cfg) \<and> \<not> isArray (opt_extra cfg))))
   \<and> (\<forall>e. checkOptions options = Inl e \<longrightarrow>
         Newer pf options = Inl e
         \<and> e \<in> PluginError ` {msg_no_options, msg_dest, msg_ext, msg_map, msg_either, msg_extra})
   \<and> (\<forall>cfg. options = Some cfg \<and> \<not> isl (checkOptions options) \<longrightarrow>
         checkOptions options =
           Inr (if truthy (opt_extra cfg) \<and> is_string (opt_extra cfg)
                then cfg\<lparr>opt_extra := JArr [opt_extra cfg]\<rparr> else cfg))
   \<and> (\<forall>opts destStats.
         checkOptions options = Inr opts \<and> \<not> truthy (opt_extra opts)
         \<and> destStatOf pf opts = Inr destStats \<longrightarrow>
           (\<exists>n. Newer pf options = Inr n))"
proof (intro conjI allI impI)
  show "isl (checkOptions options) \<longleftrightarrow>
      (case options of
         None \<Rightarrow> True
       | Some cfg \<Rightarrow>
           (truthy (opt_dest cfg) \<and> \<not> is_string (opt_dest cfg))
           \<or> (truthy (opt_ext cfg) \<and> \<not> is_string (opt_ext cfg))
           \<or> (truthy (opt_map cfg) \<and> \<not> is_function (opt_map cfg))
           \<or> (\<not> truthy (opt_dest cfg) \<and> \<not> truthy (opt_map cfg))
           \<or> (truthy (opt_extra cfg) \<and> \<not> is_string (opt_extra cfg) \<and> \<not> isArray (opt_extra cfg)))"
    by (auto simp: checkOptions_def split: option.splits)
next
  fix e assume "checkOptions options = Inl e"
  then show "Newer pf options = Inl e"
    by (rule checkOptions_error_passes)
next
  fix e assume "checkOptions options = Inl e"
  then show "e \<in> PluginError ` {msg_no_options, msg_dest, msg_ext, msg_map, msg_either, msg_extra}"
    by (auto simp: checkOptions_def split: option.splits if_splits)
next
  fix cfg assume "options = Some cfg \<and> \<not> isl (checkOptions options)"
  then show "checkOptions options =
           Inr (if truthy (opt_extra cfg) \<and> is_string (opt_extra cfg)
                then cfg\<lparr>opt_extra := JArr [opt_extra cfg]\<rparr> else cfg)"
    by (auto simp: checkOptions_def split: if_splits)
next
  fix opts destStats
  assume "checkOptions options = Inr opts \<and> \<not> truthy (opt_extra opts)
         \<and> destStatOf pf opts = Inr destStats"
  then show "\<exists>n. Newer pf options = Inr n"
    by (simp add: Newer_checked)
qed

theorem checkOptions_rejects_witness:
  "isl (checkOptions (Some (no_options\<lparr>opt_dest := JStr ''dest'', opt_ext := JNum 1\<rparr>)))
   \<and> Newer mock_pf (Some (no_options\<lparr>opt_dest := JStr ''dest'', opt_ext := JNum 1\<rparr>)) =
       Inl (PluginError msg_ext)
   \<and> checkOptions (Some (dest_with_extra (JStr ''imported''))) =
       Inr (dest_with_extra (JArr [JStr ''imported'']))"
proof -
  let ?bad = "Some (no_options\<lparr>opt_dest := JStr ''dest'', opt_ext := JNum 1\<rparr>)"
  note inst = checkOptions_rejects_iff [of ?bad mock_pf]
  have 1: "isl (checkOptions ?bad)"
    using inst by (simp add: no_options_def)
  have e: "checkOptions ?bad = Inl (PluginError msg_ext)"
    by (simp add: checkOptions_def no_options_def)
  with inst have 2: "Newer mock_pf ?bad = Inl (PluginError msg_ext)" by blast
  have "\<not> isl (checkOptions (Some (dest_with_extra (JStr ''imported''))))"
    by (simp add: checkOptions_def dest_with_extra_def no_options_def)
  with checkOptions_rejects_iff [of "Some (dest_with_extra (JStr ''imported''))" mock_pf]
  have 3: "checkOptions (Some (dest_with_extra (JStr ''imported''))) =
       Inr (dest_with_extra (JArr [JStr ''imported'']))"
    by (simp add: dest_with_extra_def no_options_def)
  from 1 2 3 show ?thesis by simp
qed

text \<open>
  C5 as stated fails in both directions. A destination \<open>0\<close> is present and not a
  string, yet with a mapper construction succeeds; an empty-string destination is
  present and a string, nothing else is set, and construction fails; an \<open>extra\<close> that
  is an array holding a number, not a list of strings, passes the checks; and with
  options that meet none of the conditions, construction still fails when the matched
  extra file \<open>gone\<close> cannot be stat'ed.
\<close>

theorem configuration_error_counterexample:
  "claimedConfigurationError (Some (no_options\<lparr>opt_dest := JNum 0, opt_map := JFun (\<lambda>p. p)\<rparr>))
   \<and> Newer mock_pf (Some (no_options\<lparr>opt_dest := JNum 0, opt_map := JFun (\<lambda>p. p)\<rparr>)) =
       Inr \<lparr>n_dest = None, n_ext = None, n_map = Some (\<lambda>p. p), n_timestamp = Mtime,
            n_destStats = None, n_bufferedFiles = None, n_all = False, n_extraStats = None,
            pushed = []\<rparr>
   \<and> \<not> claimedConfigurationError (Some (no_options\<lparr>opt_dest := JStr []\<rparr>))
   \<and> Newer mock_pf (Some (no_options\<lparr>opt_dest := JStr []\<rparr>)) = Inl (PluginError msg_either)
   \<and> claimedConfigurationError (Some (dest_with_extra (JArr [JNum 1])))
   \<and> checkOptions (Some (dest_with_extra (JArr [JNum 1]))) = Inr (dest_with_extra (JArr [JNum 1]))
   \<and> \<not> claimedConfigurationError (Some (dest_with_extra (JStr ''gone'')))
   \<and> Newer link_pf (Some (dest_with_extra (JStr ''gone''))) =
       Inl (PluginError ''Failed to read stats for an extra file: gone'')"
  by (simp add: claimedConfigurationError_def present_def construct_defs dest_with_extra_def
      link_pf_def)

section \<open>C10: the empty string as destination\<close>

lemma specialStat_eq:
  "specialStat pf n f =
     (case fs_statSync pf (destFileJoined pf n f) of
        Inr s \<Rightarrow> Inr (Some s)
      | Inl err \<Rightarrow> if err_code err \<noteq> Some ''ENOENT'' then Inl (JsError err) else Inr None)"
  by (simp add: specialStat_def)

lemma Newer_fields:
  assumes "Newer pf (Some cfg) = Inr n"
  shows "n_dest n = js_string (opt_dest cfg)"
    and "n_ext n = js_string (opt_ext cfg)"
    and "n_map n = js_function (opt_map cfg)"
    and "truthy (opt_dest cfg) \<longrightarrow> is_string (opt_dest cfg)"
    and "truthy (opt_ext cfg) \<longrightarrow> is_string (opt_ext cfg)"
    and "truthy (opt_map cfg) \<longrightarrow> is_function (opt_map cfg)"
    and "truthy (opt_dest cfg) \<or> truthy (opt_map cfg)"
    and "\<not> truthy (opt_dest cfg) \<longrightarrow> n_destStats n = None"
  using assms
  by (auto simp: Newer_def checkOptions_def getExtraStats_def Let_def
      split: sum.splits if_splits)

text \<open>
  C10, as the code has it. With \<open>dest\<close> the empty string: without a truthy \<open>map\<close>,
  construction throws a plugin error, the one for a missing \<open>dest\<close> and \<open>map\<close> unless
  \<open>ext\<close> is truthy and not a string, which is reported first; with a function as
  \<open>map\<close>, a valid \<open>ext\<close> and no \<open>extra\<close>, construction succeeds; and whenever it
  succeeds, no destination stat was taken (\<open>_destStats\<close> is \<open>null\<close>), the instance
  resolves destinations per file, and the path it stats for a file is the mapper's
  result as it is, with no join.
\<close>

theorem empty_destination_is_absent:
  assumes empty: "opt_dest cfg = JStr []"
  shows "(\<not> truthy (opt_map cfg) \<longrightarrow>
            Newer pf (Some cfg) =
              Inl (PluginError (if truthy (opt_ext cfg) \<and> \<not> is_string (opt_ext cfg)
                                then msg_ext else msg_either)))
       \<and> (\<forall>m. opt_map cfg = JFun m \<and> (truthy (opt_ext cfg) \<longrightarrow> is_string (opt_ext cfg))
               \<and> \<not> truthy (opt_extra cfg) \<longrightarrow>
            Newer pf (Some cfg) =
              Inr \<lparr>n_dest = Some [], n_ext = js_string (opt_ext cfg), n_map = Some m,
                   n_timestamp = (if truthy (opt_ctime cfg) then Ctime else Mtime),
                   n_destStats = None, n_bufferedFiles = None, n_all = False,
                   n_extraStats = None, pushed = []\<rparr>)
       \<and> (\<forall>n. Newer pf (Some cfg) = Inr n \<longrightarrow>
            n_destStats n = None \<and> \<not> nonempty (n_dest n) \<and> perFile n
            \<and> (\<exists>m. opt_map cfg = JFun m \<and> n_map n = Some m
                  \<and> (\<forall>f. destFileJoined pf n f = m (replaceExtension pf (relative f) (n_ext n))
                        \<and> specialStat pf n f =
                            (case fs_statSync pf (m (replaceExtension pf (relative f) (n_ext n))) of
                               Inr s \<Rightarrow> Inr (Some s)
                             | Inl err \<Rightarrow> if err_code err \<noteq> Some ''ENOENT''
                                          then Inl (JsError err) else Inr None))))"
proof (intro conjI allI impI)
  assume "\<not> truthy (opt_map cfg)"
  with empty show "Newer pf (Some cfg) =
              Inl (PluginError (if truthy (opt_ext cfg) \<and> \<not> is_string (opt_ext cfg)
                                then msg_ext else msg_either))"
    by (simp add: Newer_def checkOptions_def)
next
  fix m
  assume "opt_map cfg = JFun m \<and> (truthy (opt_ext cfg) \<longrightarrow> is_string (opt_ext cfg))
               \<and> \<not> truthy (opt_extra cfg)"
  with empty show "Newer pf (Some cfg) =
              Inr \<lparr>n_dest = Some [], n_ext = js_string (opt_ext cfg), n_map = Some m,
                   n_timestamp = (if truthy (opt_ctime cfg) then Ctime else Mtime),
                   n_destStats = None, n_bufferedFiles = None, n_all = False,
                   n_extraStats = None, pushed = []\<rparr>"
    by (auto simp: Newer_def checkOptions_def)
next
  fix n
  assume n: "Newer pf (Some cfg) = Inr n"
  note fields = Newer_fields [OF n]
  from fields(1,8) empty show d: "n_destStats n = None" and e: "\<not> nonempty (n_dest n)"
    by simp_all
  from fields(6,7) empty obtain m where m: "opt_map cfg = JFun m"
    by (cases "opt_map cfg") auto
  with fields(3) have nm: "n_map n = Some m" by simp
  then show "perFile n" by (simp add: perFile_def)
  have "destFileJoined pf n f = m (replaceExtension pf (relative f) (n_ext n))" for f
    using e nm by (simp add: destFileJoined_def Let_def)
  with m nm
  show "\<exists>m. opt_map cfg = JFun m \<and> n_map n = Some m
          \<and> (\<forall>f. destFileJoined pf n f = m (replaceExtension pf (relative f) (n_ext n))
                \<and> specialStat pf n f =
                    (case fs_statSync pf (m (replaceExtension pf (relative f) (n_ext n))) of
                       Inr s \<Rightarrow> Inr (Some s)
                     | Inl err \<Rightarrow> if err_code err \<noteq> Some ''ENOENT''
                                  then Inl (JsError err) else Inr None))"
    by (simp add: specialStat_eq)
qed

theorem empty_destination_witness:
  "opt_dest joining_options = JStr []
   \<and> Newer mock_pf (Some joining_options) = Inr joining_newer
   \<and> n_destStats joining_newer = None
   \<and> destFileJoined mock_pf joining_newer (source ''file2'' 200) = ''dest/file2''
   \<and> specialStat mock_pf joining_newer (source ''file2'' 200) = Inr (Some (file_at 250))
   \<and> Newer mock_pf (Some (no_options\<lparr>opt_dest := JStr []\<rparr>)) = Inl (PluginError msg_either)"
proof -
  have h: "opt_dest joining_options = JStr []"
    by (simp add: joining_options_def no_options_def)
  note inst = empty_destination_is_absent [OF h, of mock_pf]
  have m: "opt_map joining_options = JFun (posix_join ''dest'')" "\<not> truthy (opt_ext joining_options)"
    "\<not> truthy (opt_extra joining_options)" "\<not> truthy (opt_ctime joining_options)"
    "js_string (opt_ext joining_options) = None"
    by (simp_all add: joining_options_def no_options_def)
  from inst m have n: "Newer mock_pf (Some joining_options) = Inr joining_newer"
    by (simp add: joining_newer_def)
  with inst obtain m' where m': "opt_map joining_options = JFun m'"
    and j: "\<forall>f. destFileJoined mock_pf joining_newer f =
                  m' (replaceExtension mock_pf (relative f) (n_ext joining_newer))
              \<and> specialStat mock_pf joining_newer f =
                  (case fs_statSync mock_pf
                          (m' (replaceExtension mock_pf (relative f) (n_ext joining_newer))) of
                     Inr s \<Rightarrow> Inr (Some s)
                   | Inl err \<Rightarrow> if err_code err \<noteq> Some ''ENOENT''
                                then Inl (JsError err) else Inr None)"
    and d: "n_destStats joining_newer = None"
    by blast
  from m' m(1) have "m' = posix_join ''dest''" by simp
  with j [rule_format, of "source ''file2'' 200"]
  have "destFileJoined mock_pf joining_newer (source ''file2'' 200) = ''dest/file2''"
    "specialStat mock_pf joining_newer (source ''file2'' 200) = Inr (Some (file_at 250))"
    by (simp_all add: replaceExtension_def joining_newer_def source_def posix_defs
        mock_pf_def mock_fs_def)
  moreover have e: "opt_dest (no_options\<lparr>opt_dest := JStr []\<rparr>) = JStr []" by simp
  from empty_destination_is_absent [OF e, of mock_pf]
  have "Newer mock_pf (Some (no_options\<lparr>opt_dest := JStr []\<rparr>)) = Inl (PluginError msg_either)"
    by (simp add: no_options_def)
  ultimately show ?thesis using h n d by simp
qed

text \<open>
  C10 as stated fails on both counts. With \<open>dest\<close> empty, no mapper and \<open>ext: 1\<close>, the
  error thrown is the one about \<open>ext\<close>; with \<open>dest\<close> empty and a mapper, construction
  fails when the extra file \<open>gone\<close> cannot be stat'ed.
\<close>

theorem empty_destination_counterexample:
  "Newer mock_pf (Some (no_options\<lparr>opt_dest := JStr [], opt_ext := JNum 1\<rparr>)) =
     Inl (PluginError msg_ext)
   \<and> msg_ext \<noteq> msg_either
   \<and> Newer link_pf (Some (joining_options\<lparr>opt_extra := JStr ''gone''\<rparr>)) =
       Inl (PluginError ''Failed to read stats for an extra file: gone'')"
  by (simp add: construct_defs joining_options_def link_pf_def msg_ext_def msg_either_def)

section \<open>C4: the destination path of a file\<close>

text \<open>
  C4, as the code has it. For an instance built from options \<open>cfg\<close>, the path stat'ed
  for a source file starts from its relative path; a non-empty \<open>ext\<close> replaces the last
  characters, as many as \<open>path.extname\<close> returns (the extension, when that is a suffix
  of the path); a mapper is applied to the result; and a non-empty \<open>dest\<close> is joined in
  front with \<open>path.join\<close> whatever the mapper returned, an absolute path included. Only
  without a \<open>dest\<close> is the mapper's result stat'ed as it is.
\<close>

theorem destination_path_computation:
  assumes new: "Newer pf (Some cfg) = Inr n"
  shows "destFileJoined pf n f =
           (let substituted =
                  (case opt_ext cfg of
                     JStr e \<Rightarrow>
                       if e = [] then relative f
                       else take (length (relative f) - length (path_extname pf (relative f)))
                              (relative f) @ e
                   | _ \<Rightarrow> relative f);
                mapped = (case opt_map cfg of JFun m \<Rightarrow> m substituted | _ \<Rightarrow> substituted)
            in case opt_dest cfg of
                 JStr d \<Rightarrow> if d = [] then mapped else path_join pf d mapped
               | _ \<Rightarrow> mapped)
         \<and> (\<forall>stem e. opt_ext cfg = JStr e \<and> e \<noteq> []
                \<and> relative f = stem @ path_extname pf (relative f) \<longrightarrow>
              replaceExtension pf (relative f) (n_ext n) = stem @ e)
         \<and> specialStat pf n f =
             (case fs_statSync pf (destFileJoined pf n f) of
                Inr s \<Rightarrow> Inr (Some s)
              | Inl err \<Rightarrow> if err_code err \<noteq> Some ''ENOENT'' then Inl (JsError err) else Inr None)"
proof (intro conjI allI impI)
  note fields = Newer_fields [OF new]
  have e: "n_ext n = (case opt_ext cfg of JStr e \<Rightarrow> Some e | _ \<Rightarrow> None)"
    using fields(2) by (cases "opt_ext cfg") simp_all
  have m: "n_map n = (case opt_map cfg of JFun m \<Rightarrow> Some m | _ \<Rightarrow> None)"
    using fields(3) by (cases "opt_map cfg") simp_all
  have d: "n_dest n = (case opt_dest cfg of JStr d \<Rightarrow> Some d | _ \<Rightarrow> None)"
    using fields(1) by (cases "opt_dest cfg") simp_all
  show "destFileJoined pf n f =
           (let substituted =
                  (case opt_ext cfg of
                     JStr e \<Rightarrow>
                       if e = [] then relative f
                       else take (length (relative f) - length (path_extname pf (relative f)))
                              (relative f) @ e
                   | _ \<Rightarrow> relative f);
                mapped = (case opt_map cfg of JFun m \<Rightarrow> m substituted | _ \<Rightarrow> substituted)
            in case opt_dest cfg of
                 JStr d \<Rightarrow> if d = [] then mapped else path_join pf d mapped
               | _ \<Rightarrow> mapped)"
    by (simp add: destFileJoined_def replaceExtension_def Let_def e m d split: jsval.splits)
next
  fix stem e
  assume a: "opt_ext cfg = JStr e \<and> e \<noteq> []
                \<and> relative f = stem @ path_extname pf (relative f)"
  with Newer_fields(2) [OF new] have "n_ext n = Some e" by simp
  moreover from a have "take (length (relative f) - length (path_extname pf (relative f)))
                     (relative f) = stem"
    by (metis add_diff_cancel_right' append_eq_conv_conj length_append)
  ultimately show "replaceExtension pf (relative f) (n_ext n) = stem @ e"
    using a by (simp add: replaceExtension_def Let_def)
next
  show "specialStat pf n f =
             (case fs_statSync pf (destFileJoined pf n f) of
                Inr s \<Rightarrow> Inr (Some s)
              | Inl err \<Rightarrow> if err_code err \<noteq> Some ''ENOENT'' then Inl (JsError err) else Inr None)"
    by (rule specialStat_eq)
qed

theorem destination_path_witness:
  "Newer mock_pf (Some ext_options) = Inr ext_newer
   \<and> destFileJoined mock_pf ext_newer (source ''file1.ext1'' 100) = ''dest/file1.ext2''
   \<and> specialStat mock_pf ext_newer (source ''file1.ext1'' 100) = Inr (Some (file_at 50))"
proof -
  have n: "Newer mock_pf (Some ext_options) = Inr ext_newer"
    by (simp add: construct_defs ext_options_def ext_newer_def dest_newer_def)
  note inst = destination_path_computation [OF n, of "source ''file1.ext1'' 100"]
  from inst have j: "destFileJoined mock_pf ext_newer (source ''file1.ext1'' 100) = ''dest/file1.ext2''"
    by (simp add: ext_options_def no_options_def source_def mock_pf_def posix_defs)
  from inst have "specialStat mock_pf ext_newer (source ''file1.ext1'' 100) =
      (case fs_statSync mock_pf (destFileJoined mock_pf ext_newer (source ''file1.ext1'' 100)) of
         Inr s \<Rightarrow> Inr (Some s)
       | Inl err \<Rightarrow> if err_code err \<noteq> Some ''ENOENT'' then Inl (JsError err) else Inr None)"
    by blast
  then have "specialStat mock_pf ext_newer (source ''file1.ext1'' 100) = Inr (Some (file_at 50))"
    unfolding j by (simp add: mock_pf_def mock_fs_def)
  with n j show ?thesis by simp
qed

text \<open>
  C4 as stated fails: with the destination \<open>dest\<close> set, the absolute path
  \<open>/abs/file1\<close> the mapper returns is not left as it is; \<open>dest/abs/file1\<close> is stat'ed.
\<close>

theorem absolute_mapper_counterexample:
  "Newer mock_pf (Some absolute_options) = Inr absolute_newer
   \<and> n_map absolute_newer = Some (append ''/abs/'')
   \<and> append ''/abs/'' (relative (source ''file1'' 100)) = ''/abs/file1''
   \<and> destFileJoined mock_pf absolute_newer (source ''file1'' 100) = ''dest/abs/file1''"
  by (simp add: construct_defs absolute_options_def absolute_newer_def dest_newer_def
      destFileJoined_def replaceExtension_def posix_defs source_def)

section \<open>C9: the two implementations\<close>





lemma lift_simps [simp]:
  "q_dest (lift n) = n_dest n" "q_ext (lift n) = n_ext n" "q_map (lift n) = n_map n"
  "q_timestamp (lift n) = n_timestamp n" "q_destStats (lift n) = Inr (n_destStats n)"
  "q_bufferedFiles (lift n) = n_bufferedFiles n" "q_all (lift n) = n_all n"
  "q_extraStats (lift n) = Inr (n_extraStats n)" "q_pushed (lift n) = pushed n"
  by (simp_all add: lift_def)

lemma lift_updates [simp]:
  "(lift n)\<lparr>q_pushed := p\<rparr> = lift (n\<lparr>pushed := p\<rparr>)"
  "(lift n)\<lparr>q_bufferedFiles := b\<rparr> = lift (n\<lparr>n_bufferedFiles := b\<rparr>)"
  "(lift n)\<lparr>q_all := a\<rparr> = lift (n\<lparr>n_all := a\<rparr>)"
  by (simp_all add: lift_def)
























text \<open>
  Under the same reading of \<open>this._extraStats\<close>, the promise-based version emits a file
  whose destination is absent while a watermark is set, where the synchronous one
  raises (C2).
\<close>

lemma promise_version_emits_absent_under_extra:
  "pipelineQ mock_pf (Inr None) (Some (dest_with_extra (JStr ''imported'')))
     [source ''file1'' 100] = (None, [source ''file1'' 100])"
  by (simp add: pipelineQ_def NewerQ_def checkOptionsQ_def extraStatsQ_def runQ_def
      transformQ_def firstSpread_def failEnoent_def newerQ_of_def passQ_def pushQ_def flushQ_def
      destFileJoinedQ_def dest_with_extra_def no_options_def mock_pf_def mock_fs_def
      literal_glob_def enoent_def file_at_def source_def posix_defs)

end
